theory Spec2Isabelle
  imports Main "HOL-Library.Product_Lexorder"
begin

section \<open>Registration of the Cilium CustomResourceDefinitions\<close>

text \<open>
  A shallow embedding of \<^verbatim>\<open>pkg/k8s/apis/cilium.io/v2/client/register.go\<close>.
  The cluster API client, the YAML decoder, the embedded documents, the configuration
  and the version parser are collaborators of the file: they are parameters of the
  functions below. Every call to the client and every log line is appended to a trace,
  so that statements about which calls are issued are statements about that trace.
\<close>

subsection \<open>Errors\<close>

text \<open>
  The errors the file distinguishes: a status error of the API machinery with its reason
  (\<^verbatim>\<open>errors.IsNotFound\<close>, \<^verbatim>\<open>errors.IsAlreadyExists\<close> read it), the time-out of
  \<^verbatim>\<open>wait.Poll\<close>, and a plain error built from a string (\<^verbatim>\<open>fmt.Errorf\<close>,
  \<^verbatim>\<open>goerrors.New\<close>).
\<close>

datatype StatusReason = NotFound | AlreadyExists | Conflict | OtherReason

datatype error =
    StatusError StatusReason string
  | ErrWaitTimeout
  | ErrorString string

text \<open>The text of an error, as \<^verbatim>\<open>%s\<close> prints it.\<close>

fun Error :: "error \<Rightarrow> string" where
  "Error (StatusError r msg) = msg"
| "Error ErrWaitTimeout = ''timed out waiting for the condition''"
| "Error (ErrorString s) = s"

text \<open>Both predicates take the Go error value, where \<open>None\<close> is \<^verbatim>\<open>nil\<close>.\<close>

fun IsNotFound :: "error option \<Rightarrow> bool" where
  "IsNotFound (Some (StatusError NotFound msg)) = True"
| "IsNotFound e = False"

fun IsAlreadyExists :: "error option \<Rightarrow> bool" where
  "IsAlreadyExists (Some (StatusError AlreadyExists msg)) = True"
| "IsAlreadyExists e = False"

subsection \<open>The resource definition object\<close>

text \<open>
  The fields of \<^verbatim>\<open>apiextensionsv1beta1.CustomResourceDefinition\<close> that the file reads
  or writes. A pointer field that may be \<^verbatim>\<open>nil\<close> is an option; the schema, the
  subresources and the printer columns are never inspected and are kept as opaque text.
  \<open>Labels\<close> is a Go map: a lookup of an absent key (or in a \<^verbatim>\<open>nil\<close> map) is \<open>None\<close>.
\<close>

datatype CustomResourceValidation = OpenAPIV3Schema string

record CustomResourceDefinitionNames =
  Plural :: string
  Singular :: string
  ShortNames :: "string list"
  Kind :: string

record CustomResourceDefinitionSpec =
  Group :: string
  Version :: string
  Names :: CustomResourceDefinitionNames
  AdditionalPrinterColumns :: "string list"
  Subresources :: "string option"
  Scope :: string
  Validation :: "CustomResourceValidation option"

record CustomResourceDefinitionCondition =
  Type :: string
  Status :: string
  Reason :: string

record CustomResourceDefinition =
  Name :: string
  Labels :: "string \<rightharpoonup> string"
  Spec :: CustomResourceDefinitionSpec
  Conditions :: "CustomResourceDefinitionCondition list"

definition Established :: string where
  "Established = ''Established''"

definition NamesAccepted :: string where
  "NamesAccepted = ''NamesAccepted''"

definition ConditionTrue :: string where
  "ConditionTrue = ''True''"

definition ConditionFalse :: string where
  "ConditionFalse = ''False''"

subsection \<open>Constants of the package\<close>

definition CustomResourceDefinitionVersion :: string where
  "CustomResourceDefinitionVersion = ''v2''"

definition CustomResourceDefinitionSchemaVersion :: string where
  "CustomResourceDefinitionSchemaVersion = ''1.18''"

definition CustomResourceDefinitionSchemaVersionKey :: string where
  "CustomResourceDefinitionSchemaVersionKey = ''io.cilium.k8s.crd.schema.version''"

subsection \<open>The version check\<close>

text \<open>
  Modelled from the spec: package \<^verbatim>\<open>versioncheck\<close> is not among the sources. The
  spec describes a schema version as a semantic version with a total ordering, used only
  for less-than comparisons. A version is therefore a value of any linearly ordered type
  \<open>'v\<close>, \<^verbatim>\<open>LT\<close> is \<open><\<close>, and the parser \<^verbatim>\<open>versioncheck.Version\<close> is the parameter
  \<open>vc\<close>. \<^verbatim>\<open>MustVersion\<close> panics where the parser fails, which is \<open>None\<close> here; the
  package variable \<^verbatim>\<open>comparableCRDSchemaVersion\<close> is the parameter \<open>cur\<close>, tied to the
  constant by \<open>MustVersion vc CustomResourceDefinitionSchemaVersion = Some cur\<close>.
\<close>

definition MustVersion :: "(string \<Rightarrow> error + 'v) \<Rightarrow> string \<Rightarrow> 'v option" where
  "MustVersion vc s = (case vc s of Inl e \<Rightarrow> None | Inr v \<Rightarrow> Some v)"

definition needsUpdate ::
  "(string \<Rightarrow> error + 'v::linorder) \<Rightarrow> 'v \<Rightarrow> CustomResourceDefinition \<Rightarrow> bool" where
  "needsUpdate vc cur clusterCRD =
     (if Validation (Spec clusterCRD) = None then True
      else case Labels clusterCRD CustomResourceDefinitionSchemaVersionKey of
             None \<Rightarrow> True
           | Some v \<Rightarrow>
               (case vc v of
                  Inl e \<Rightarrow> True
                | Inr clusterVersion \<Rightarrow> if clusterVersion < cur then True else False))"

subsection \<open>The cluster client, the trace and the logger\<close>

text \<open>
  The four calls of \<^verbatim>\<open>clientset.ApiextensionsV1beta1().CustomResourceDefinitions()\<close>
  that the file uses. The cluster is a state \<open>'s\<close> that each call may change; what a call
  answers is up to the client. A Go result pair \<^verbatim>\<open>(object, err)\<close> is a sum: the file
  never reads the object of a failed call.
\<close>

record 's clientset =
  Get :: "string \<Rightarrow> 's \<Rightarrow> (error + CustomResourceDefinition) \<times> 's"
  Create :: "CustomResourceDefinition \<Rightarrow> 's \<Rightarrow> (error + CustomResourceDefinition) \<times> 's"
  Update :: "CustomResourceDefinition \<Rightarrow> 's \<Rightarrow> (error + CustomResourceDefinition) \<times> 's"
  Delete :: "string \<Rightarrow> 's \<Rightarrow> error option \<times> 's"

datatype level = DebugLevel | InfoLevel | ErrorLevel

text \<open>
  A log entry keeps the level, the \<^verbatim>\<open>name\<close> field of \<^verbatim>\<open>scopedLog\<close>, the error
  attached by \<^verbatim>\<open>WithError\<close> (if any) and the message.
\<close>

datatype event =
    GetCall string
  | CreateCall CustomResourceDefinition
  | UpdateCall CustomResourceDefinition
  | DeleteCall string
  | LogEntry level string "error option" string

record 's world =
  client :: 's
  trace :: "event list"

definition err_of :: "error + 'a \<Rightarrow> error option" where
  "err_of r = (case r of Inl e \<Rightarrow> Some e | Inr x \<Rightarrow> None)"

definition do_Get ::
  "'s clientset \<Rightarrow> string \<Rightarrow> 's world \<Rightarrow> (error + CustomResourceDefinition) \<times> 's world" where
  "do_Get cs name w =
     (case Get cs name (client w) of
        (r, s) \<Rightarrow> (r, \<lparr>client = s, trace = trace w @ [GetCall name]\<rparr>))"

definition do_Create ::
  "'s clientset \<Rightarrow> CustomResourceDefinition \<Rightarrow> 's world
     \<Rightarrow> (error + CustomResourceDefinition) \<times> 's world" where
  "do_Create cs crd w =
     (case Create cs crd (client w) of
        (r, s) \<Rightarrow> (r, \<lparr>client = s, trace = trace w @ [CreateCall crd]\<rparr>))"

definition do_Update ::
  "'s clientset \<Rightarrow> CustomResourceDefinition \<Rightarrow> 's world
     \<Rightarrow> (error + CustomResourceDefinition) \<times> 's world" where
  "do_Update cs crd w =
     (case Update cs crd (client w) of
        (r, s) \<Rightarrow> (r, \<lparr>client = s, trace = trace w @ [UpdateCall crd]\<rparr>))"

definition do_Delete :: "'s clientset \<Rightarrow> string \<Rightarrow> 's world \<Rightarrow> error option \<times> 's world" where
  "do_Delete cs name w =
     (case Delete cs name (client w) of
        (r, s) \<Rightarrow> (r, \<lparr>client = s, trace = trace w @ [DeleteCall name]\<rparr>))"

definition logf :: "level \<Rightarrow> string \<Rightarrow> error option \<Rightarrow> string \<Rightarrow> 's world \<Rightarrow> 's world" where
  "logf lvl name e msg w = w\<lparr>trace := trace w @ [LogEntry lvl name e msg]\<rparr>"

text \<open>The Update calls of a trace, in order.\<close>

fun is_UpdateCall :: "event \<Rightarrow> bool" where
  "is_UpdateCall (UpdateCall c) = True"
| "is_UpdateCall e = False"

definition updates :: "'s world \<Rightarrow> event list" where
  "updates w = filter is_UpdateCall (trace w)"

subsection \<open>wait.Poll\<close>

text \<open>
  \<^verbatim>\<open>wait.Poll(interval, timeout, condition)\<close> of the Kubernetes library runs the
  condition until it reports done, returns an error, or the time is up, and it runs the
  condition at least once. How many runs fit into the 60 seconds depends on the clock, so
  the number \<open>n\<close> of runs that the deadline allows after the first one is a parameter. An
  error of the condition ends the loop whatever the flag says; a run that is not done when
  no run is left gives \<^verbatim>\<open>ErrWaitTimeout\<close>. The variables that the closure captures and
  assigns are the state \<open>'st\<close>.
\<close>

fun Poll ::
  "nat \<Rightarrow> ('st \<Rightarrow> (bool \<times> error option) \<times> 'st) \<Rightarrow> 'st \<Rightarrow> error option \<times> 'st" where
  "Poll 0 condition st =
     (case condition st of
        ((ok, e), st') \<Rightarrow>
          (case e of
             Some x \<Rightarrow> (Some x, st')
           | None \<Rightarrow> if ok then (None, st') else (Some ErrWaitTimeout, st')))"
| "Poll (Suc n) condition st =
     (case condition st of
        ((ok, e), st') \<Rightarrow>
          (case e of
             Some x \<Rightarrow> (Some x, st')
           | None \<Rightarrow> if ok then (None, st') else Poll n condition st'))"

subsection \<open>createUpdateCRD\<close>

text \<open>
  Go's \<^verbatim>\<open>clusterCRD.Labels[key]\<close>: the empty string for an absent key.
\<close>

definition label_value :: "CustomResourceDefinition \<Rightarrow> string \<Rightarrow> string" where
  "label_value c k = (case Labels c k of None \<Rightarrow> [] | Some v \<Rightarrow> v)"

text \<open>
  Lines 317 to 336: Get, Create when the object is not found, and the two early returns.
  \<open>Inl\<close> is a return of \<^verbatim>\<open>createUpdateCRD\<close> with that error value; \<open>Inr\<close> goes on with
  \<^verbatim>\<open>clusterCRD\<close>.
\<close>

definition fetch_or_create ::
  "'s clientset \<Rightarrow> string \<Rightarrow> CustomResourceDefinition \<Rightarrow> 's world
     \<Rightarrow> (error option \<times> 's world) + (CustomResourceDefinition \<times> 's world)" where
  "fetch_or_create cs crdName crd w =
     (case do_Get cs (Name crd) w of
        (r, w1) \<Rightarrow>
          if IsNotFound (err_of r) then
            (case do_Create cs crd
                    (logf InfoLevel crdName None
                       ''Creating CRD (CustomResourceDefinition)...'' w1) of
               (r', w2) \<Rightarrow>
                 if IsAlreadyExists (err_of r') then Inl (None, w2)
                 else (case r' of
                         Inl e \<Rightarrow> Inl (Some e, w2)
                       | Inr clusterCRD \<Rightarrow> Inr (clusterCRD, w2)))
          else (case r of
                  Inl e \<Rightarrow> Inl (Some e, w1)
                | Inr clusterCRD \<Rightarrow> Inr (clusterCRD, w1)))"

text \<open>
  Lines 347 to 378: the closure of the update loop. Its state is the captured
  \<^verbatim>\<open>clusterCRD\<close> and the world. The object that is sent is the one just fetched, with the
  labels and the spec of the descriptor; the answer of Update is dropped. After a failed
  Get the function returns without reading \<^verbatim>\<open>clusterCRD\<close>, so the old value stands.
\<close>

definition update_condition ::
  "'s clientset \<Rightarrow> (string \<Rightarrow> error + 'v::linorder) \<Rightarrow> 'v \<Rightarrow> string
     \<Rightarrow> CustomResourceDefinition \<Rightarrow> CustomResourceDefinition \<times> 's world
     \<Rightarrow> (bool \<times> error option) \<times> (CustomResourceDefinition \<times> 's world)" where
  "update_condition cs vc cur crdName crd st =
     (case st of
        (clusterCRD, w) \<Rightarrow>
          (case do_Get cs (Name crd) w of
             (Inl e, w1) \<Rightarrow> ((False, Some e), (clusterCRD, w1))
           | (Inr fetched, w1) \<Rightarrow>
               if needsUpdate vc cur fetched then
                 (let w2 = logf DebugLevel crdName None
                             ''CRD validation is different, updating it...'' w1;
                      changed = fetched\<lparr>Labels := Labels crd, Spec := Spec crd\<rparr>
                  in case do_Update cs changed w2 of
                       (Inr answer, w3) \<Rightarrow> ((True, None), (changed, w3))
                     | (Inl e, w3) \<Rightarrow>
                         ((False, Some e),
                          (changed,
                           logf DebugLevel crdName (Some e)
                             ''Unable to update CRD validation'' w3)))
               else ((True, None), (fetched, w1))))"

text \<open>
  Lines 338 to 383: the gate and the update loop, \<open>n\<close> being the runs the deadline allows
  after the first.
\<close>

definition update_if_needed ::
  "'s clientset \<Rightarrow> (string \<Rightarrow> error + 'v::linorder) \<Rightarrow> 'v \<Rightarrow> nat \<Rightarrow> string
     \<Rightarrow> CustomResourceDefinition \<Rightarrow> CustomResourceDefinition \<Rightarrow> 's world
     \<Rightarrow> (error option \<times> 's world) + (CustomResourceDefinition \<times> 's world)" where
  "update_if_needed cs vc cur n crdName crd clusterCRD w =
     (let w1 = logf DebugLevel crdName None
                 ''Checking if CRD (CustomResourceDefinition) needs update...'' w
      in if Validation (Spec crd) \<noteq> None
            \<and> label_value clusterCRD CustomResourceDefinitionSchemaVersionKey \<noteq> []
            \<and> needsUpdate vc cur clusterCRD
         then
           (case Poll n (update_condition cs vc cur crdName crd)
                   (clusterCRD,
                    logf InfoLevel crdName None
                      ''Updating CRD (CustomResourceDefinition)...'' w1) of
              (Some e, (c, w2)) \<Rightarrow>
                Inl (Some e, logf ErrorLevel crdName (Some e) ''Unable to update CRD'' w2)
            | (None, (c, w2)) \<Rightarrow> Inr (c, w2))
         else Inr (clusterCRD, w1))"

text \<open>
  Lines 388 to 400: the \<^verbatim>\<open>for\<close> loop over the conditions with its \<^verbatim>\<open>switch\<close>. It
  leaves the closure at the first condition that is Established with status true or
  NamesAccepted with status false.
\<close>

datatype scan = FoundEstablished | FoundNameConflict string | NothingFound

fun scan_conditions :: "CustomResourceDefinitionCondition list \<Rightarrow> scan" where
  "scan_conditions [] = NothingFound"
| "scan_conditions (cond # rest) =
     (if Type cond = Established then
        (if Status cond = ConditionTrue then FoundEstablished else scan_conditions rest)
      else if Type cond = NamesAccepted then
        (if Status cond = ConditionFalse then FoundNameConflict (Reason cond)
         else scan_conditions rest)
      else scan_conditions rest)"

text \<open>
  The two kinds of entry at which that loop leaves the closure; an entry of neither kind
  is passed over.
\<close>

definition is_established :: "CustomResourceDefinitionCondition \<Rightarrow> bool" where
  "is_established cond \<longleftrightarrow> Type cond = Established \<and> Status cond = ConditionTrue"

definition is_name_conflict :: "CustomResourceDefinitionCondition \<Rightarrow> bool" where
  "is_name_conflict cond \<longleftrightarrow> Type cond = NamesAccepted \<and> Status cond = ConditionFalse"

definition matching :: "CustomResourceDefinitionCondition \<Rightarrow> bool" where
  "matching cond \<longleftrightarrow> is_established cond \<or> is_name_conflict cond"

text \<open>
  Lines 387 to 409: the closure of the establishment wait. It captures \<^verbatim>\<open>clusterCRD\<close>
  and the variable \<^verbatim>\<open>err\<close> of the function, which it returns in both branches of the
  switch and assigns at the Get.
\<close>

definition established_condition ::
  "'s clientset \<Rightarrow> string \<Rightarrow> CustomResourceDefinition
     \<Rightarrow> CustomResourceDefinition \<times> error option \<times> 's world
     \<Rightarrow> (bool \<times> error option) \<times> (CustomResourceDefinition \<times> error option \<times> 's world)" where
  "established_condition cs crdName crd st =
     (case st of
        (clusterCRD, err, w) \<Rightarrow>
          (case scan_conditions (Conditions clusterCRD) of
             FoundEstablished \<Rightarrow> ((True, err), (clusterCRD, err, w))
           | FoundNameConflict reason \<Rightarrow>
               ((False, err),
                (clusterCRD, err,
                 logf ErrorLevel crdName (Some (ErrorString reason))
                   ''Name conflict for CRD'' w))
           | NothingFound \<Rightarrow>
               (case do_Get cs (Name crd) w of
                  (Inl e, w1) \<Rightarrow> ((False, Some e), (clusterCRD, Some e, w1))
                | (Inr fetched, w1) \<Rightarrow> ((False, None), (fetched, None, w1)))))"

text \<open>
  The error of lines 416 and 417, \<^verbatim>\<open>fmt.Errorf\<close> with three \<^verbatim>\<open>%s\<close>.
\<close>

definition delete_failed :: "string \<Rightarrow> error \<Rightarrow> error \<Rightarrow> error" where
  "delete_failed crdName deleteErr err =
     ErrorString (''unable to delete k8s '' @ crdName @ '' CRD '' @ Error deleteErr
                  @ ''. Deleting CRD due: '' @ Error err)"

text \<open>
  Lines 385 to 423. Every path that reaches line 387 has \<^verbatim>\<open>err == nil\<close> (line 334, or
  line 379 after the assignment of line 347), so the loop starts with \<open>None\<close> for it.
\<close>

definition wait_established ::
  "'s clientset \<Rightarrow> nat \<Rightarrow> string \<Rightarrow> CustomResourceDefinition \<Rightarrow> CustomResourceDefinition
     \<Rightarrow> 's world \<Rightarrow> error option \<times> 's world" where
  "wait_established cs n crdName crd clusterCRD w =
     (case Poll n (established_condition cs crdName crd)
             (clusterCRD, None,
              logf DebugLevel crdName None
                ''Waiting for CRD (CustomResourceDefinition) to be available...'' w) of
        (Some err, (c, e, w1)) \<Rightarrow>
          (case do_Delete cs (Name crd) w1 of
             (Some deleteErr, w2) \<Rightarrow> (Some (delete_failed crdName deleteErr err), w2)
           | (None, w2) \<Rightarrow> (Some err, w2))
      | (None, (c, e, w1)) \<Rightarrow>
          (None,
           logf InfoLevel crdName None
             ''CRD (CustomResourceDefinition) is installed and up-to-date'' w1))"

text \<open>
  \<^verbatim>\<open>createUpdateCRD\<close>, lines 311 to 424. \<open>n_update\<close> and \<open>n_wait\<close> are the runs that the
  two deadlines allow after the first run of each loop.
\<close>

definition createUpdateCRD ::
  "'s clientset \<Rightarrow> (string \<Rightarrow> error + 'v::linorder) \<Rightarrow> 'v \<Rightarrow> nat \<Rightarrow> nat \<Rightarrow> string
     \<Rightarrow> CustomResourceDefinition \<Rightarrow> 's world \<Rightarrow> error option \<times> 's world" where
  "createUpdateCRD cs vc cur n_update n_wait crdName crd w =
     (case fetch_or_create cs crdName crd w of
        Inl result \<Rightarrow> result
      | Inr (clusterCRD, w1) \<Rightarrow>
          (case update_if_needed cs vc cur n_update crdName crd clusterCRD w1 of
             Inl result \<Rightarrow> result
           | Inr (clusterCRD', w2) \<Rightarrow> wait_established cs n_wait crdName crd clusterCRD' w2))"

subsection \<open>The descriptors of the five kinds\<close>

text \<open>
  What the file takes from other packages: the group name \<^verbatim>\<open>k8sconst.GroupName\<close>, the
  five embedded documents (each accessor returns the bytes or an error), the decoder
  \<^verbatim>\<open>yaml.Unmarshal\<close>, and the two values that line 106 compares.
\<close>

record collaborators =
  GroupName :: string
  examplesCrdsCiliumnetworkpoliciesYamlBytes :: "error + string"
  examplesCrdsCiliumclusterwidenetworkpoliciesYamlBytes :: "error + string"
  examplesCrdsCiliumendpointsYamlBytes :: "error + string"
  examplesCrdsCiliumnodesYamlBytes :: "error + string"
  examplesCrdsCiliumidentitiesYamlBytes :: "error + string"
  yaml_Unmarshal :: "string \<Rightarrow> error + CustomResourceDefinition"
  IdentityAllocationMode :: string
  IdentityAllocationModeCRD :: string

text \<open>A call either panics with an error or returns.\<close>

datatype 'a outcome = Panic error | Return 'a

text \<open>
  The first lines of each \<^verbatim>\<open>create...CRD\<close>: read the document, decode it, panic when
  either step fails.
\<close>

definition decode ::
  "collaborators \<Rightarrow> error + string \<Rightarrow> CustomResourceDefinition outcome" where
  "decode ext bytes =
     (case bytes of
        Inl err \<Rightarrow> Panic err
      | Inr crdBytes \<Rightarrow>
          (case yaml_Unmarshal ext crdBytes of
             Inl err \<Rightarrow> Panic err
           | Inr ciliumCRD \<Rightarrow> Return ciliumCRD))"

text \<open>
  The part of the struct literal \<^verbatim>\<open>res\<close> that the five functions share: the name, the
  schema-version label, group, version and names. The fields that a literal does not set
  have Go's zero value.
\<close>

definition descriptor :: "collaborators \<Rightarrow> CustomResourceDefinition \<Rightarrow> CustomResourceDefinition" where
  "descriptor ext ciliumCRD =
     \<lparr>Name = Plural (Names (Spec ciliumCRD)) @ ''.'' @ GroupName ext,
      Labels = [CustomResourceDefinitionSchemaVersionKey
                  \<mapsto> CustomResourceDefinitionSchemaVersion],
      Spec = \<lparr>Group = GroupName ext,
              Version = CustomResourceDefinitionVersion,
              Names = \<lparr>Plural = Plural (Names (Spec ciliumCRD)),
                       Singular = Singular (Names (Spec ciliumCRD)),
                       ShortNames = ShortNames (Names (Spec ciliumCRD)),
                       Kind = Kind (Names (Spec ciliumCRD))\<rparr>,
              AdditionalPrinterColumns = [],
              Subresources = Subresources (Spec ciliumCRD),
              Scope = Scope (Spec ciliumCRD),
              Validation = None\<rparr>,
      Conditions = []\<rparr>"

text \<open>Lines 128 to 149 and 205 to 227: with printer columns and validation.\<close>

definition res_CNP :: "collaborators \<Rightarrow> CustomResourceDefinition \<Rightarrow> CustomResourceDefinition" where
  "res_CNP ext ciliumCRD =
     (descriptor ext ciliumCRD)
       \<lparr>Spec := (Spec (descriptor ext ciliumCRD))
          \<lparr>AdditionalPrinterColumns := AdditionalPrinterColumns (Spec ciliumCRD),
           Validation := Validation (Spec ciliumCRD)\<rparr>\<rparr>"

text \<open>Lines 167 to 187 and 245 to 266: with validation, without printer columns.\<close>

definition res_CCNP :: "collaborators \<Rightarrow> CustomResourceDefinition \<Rightarrow> CustomResourceDefinition" where
  "res_CCNP ext ciliumCRD =
     (descriptor ext ciliumCRD)
       \<lparr>Spec := (Spec (descriptor ext ciliumCRD))
          \<lparr>Validation := Validation (Spec ciliumCRD)\<rparr>\<rparr>"

text \<open>Lines 284 to 304: neither printer columns nor validation are set.\<close>

definition res_Identity :: "collaborators \<Rightarrow> CustomResourceDefinition \<Rightarrow> CustomResourceDefinition" where
  "res_Identity ext ciliumCRD = descriptor ext ciliumCRD"

definition createCNPCRD ::
  "'s clientset \<Rightarrow> (string \<Rightarrow> error + 'v::linorder) \<Rightarrow> 'v \<Rightarrow> nat \<Rightarrow> nat \<Rightarrow> collaborators
     \<Rightarrow> 's world \<Rightarrow> (error option \<times> 's world) outcome" where
  "createCNPCRD cs vc cur n_update n_wait ext w =
     (case decode ext (examplesCrdsCiliumnetworkpoliciesYamlBytes ext) of
        Panic err \<Rightarrow> Panic err
      | Return ciliumCRD \<Rightarrow>
          Return (createUpdateCRD cs vc cur n_update n_wait ''CiliumNetworkPolicy/v2''
                    (res_CNP ext ciliumCRD) w))"

definition createCCNPCRD ::
  "'s clientset \<Rightarrow> (string \<Rightarrow> error + 'v::linorder) \<Rightarrow> 'v \<Rightarrow> nat \<Rightarrow> nat \<Rightarrow> collaborators
     \<Rightarrow> 's world \<Rightarrow> (error option \<times> 's world) outcome" where
  "createCCNPCRD cs vc cur n_update n_wait ext w =
     (case decode ext (examplesCrdsCiliumclusterwidenetworkpoliciesYamlBytes ext) of
        Panic err \<Rightarrow> Panic err
      | Return ciliumCRD \<Rightarrow>
          Return (createUpdateCRD cs vc cur n_update n_wait
                    ''CiliumClusterwideNetworkPolicy/v2'' (res_CCNP ext ciliumCRD) w))"

definition createCEPCRD ::
  "'s clientset \<Rightarrow> (string \<Rightarrow> error + 'v::linorder) \<Rightarrow> 'v \<Rightarrow> nat \<Rightarrow> nat \<Rightarrow> collaborators
     \<Rightarrow> 's world \<Rightarrow> (error option \<times> 's world) outcome" where
  "createCEPCRD cs vc cur n_update n_wait ext w =
     (case decode ext (examplesCrdsCiliumendpointsYamlBytes ext) of
        Panic err \<Rightarrow> Panic err
      | Return ciliumCRD \<Rightarrow>
          Return (createUpdateCRD cs vc cur n_update n_wait ''v2.CiliumEndpoint''
                    (res_CNP ext ciliumCRD) w))"

definition createNodeCRD ::
  "'s clientset \<Rightarrow> (string \<Rightarrow> error + 'v::linorder) \<Rightarrow> 'v \<Rightarrow> nat \<Rightarrow> nat \<Rightarrow> collaborators
     \<Rightarrow> 's world \<Rightarrow> (error option \<times> 's world) outcome" where
  "createNodeCRD cs vc cur n_update n_wait ext w =
     (case decode ext (examplesCrdsCiliumnodesYamlBytes ext) of
        Panic err \<Rightarrow> Panic err
      | Return ciliumCRD \<Rightarrow>
          Return (createUpdateCRD cs vc cur n_update n_wait ''v2.CiliumNode''
                    (res_CCNP ext ciliumCRD) w))"

definition createIdentityCRD ::
  "'s clientset \<Rightarrow> (string \<Rightarrow> error + 'v::linorder) \<Rightarrow> 'v \<Rightarrow> nat \<Rightarrow> nat \<Rightarrow> collaborators
     \<Rightarrow> 's world \<Rightarrow> (error option \<times> 's world) outcome" where
  "createIdentityCRD cs vc cur n_update n_wait ext w =
     (case decode ext (examplesCrdsCiliumidentitiesYamlBytes ext) of
        Panic err \<Rightarrow> Panic err
      | Return ciliumCRD \<Rightarrow>
          Return (createUpdateCRD cs vc cur n_update n_wait ''v2.CiliumIdentity''
                    (res_Identity ext ciliumCRD) w))"

subsection \<open>CreateCustomResourceDefinitions\<close>

definition CreateCustomResourceDefinitions ::
  "'s clientset \<Rightarrow> (string \<Rightarrow> error + 'v::linorder) \<Rightarrow> 'v \<Rightarrow> nat \<Rightarrow> nat \<Rightarrow> collaborators
     \<Rightarrow> 's world \<Rightarrow> (error option \<times> 's world) outcome" where
  "CreateCustomResourceDefinitions cs vc cur n_update n_wait ext w =
     (case createCNPCRD cs vc cur n_update n_wait ext w of
        Panic p \<Rightarrow> Panic p
      | Return (Some err, w1) \<Rightarrow> Return (Some err, w1)
      | Return (None, w1) \<Rightarrow>
     (case createCCNPCRD cs vc cur n_update n_wait ext w1 of
        Panic p \<Rightarrow> Panic p
      | Return (Some err, w2) \<Rightarrow> Return (Some err, w2)
      | Return (None, w2) \<Rightarrow>
     (case createCEPCRD cs vc cur n_update n_wait ext w2 of
        Panic p \<Rightarrow> Panic p
      | Return (Some err, w3) \<Rightarrow> Return (Some err, w3)
      | Return (None, w3) \<Rightarrow>
     (case createNodeCRD cs vc cur n_update n_wait ext w3 of
        Panic p \<Rightarrow> Panic p
      | Return (Some err, w4) \<Rightarrow> Return (Some err, w4)
      | Return (None, w4) \<Rightarrow>
          if IdentityAllocationMode ext = IdentityAllocationModeCRD ext then
            (case createIdentityCRD cs vc cur n_update n_wait ext w4 of
               Panic p \<Rightarrow> Panic p
             | Return (Some err, w5) \<Rightarrow> Return (Some err, w5)
             | Return (None, w5) \<Rightarrow> Return (None, w5))
          else Return (None, w4)))))"

text \<open>
  The orchestrator in the words of the specification: the reconcilers of a list are
  invoked in order, and the first error (or panic) ends the sequence.
\<close>

fun in_order ::
  "('w \<Rightarrow> (error option \<times> 'w) outcome) list \<Rightarrow> 'w \<Rightarrow> (error option \<times> 'w) outcome" where
  "in_order [] w = Return (None, w)"
| "in_order (f # fs) w =
     (case f w of
        Panic p \<Rightarrow> Panic p
      | Return (Some err, w') \<Rightarrow> Return (Some err, w')
      | Return (None, w') \<Rightarrow> in_order fs w')"

subsection \<open>Stand-ins for the examples\<close>

text \<open>
  Modelled from the spec: a parser for the parameter \<open>vc\<close> in the examples, since
  \<^verbatim>\<open>versioncheck.Version\<close> is not among the sources. It reads one to three decimal
  numbers separated by dots, as in the version string \<^verbatim>\<open>1.18\<close> of the spec, and fills
  the missing ones with zero; versions are ordered as triples, the major number first.
\<close>

definition digit :: "char \<Rightarrow> nat option" where
  "digit = map_of (zip ''0123456789'' [0, 1, 2, 3, 4, 5, 6, 7, 8, 9])"

fun number :: "string \<Rightarrow> nat \<Rightarrow> nat option" where
  "number [] acc = Some acc"
| "number (c # cs) acc =
     (case digit c of None \<Rightarrow> None | Some d \<Rightarrow> number cs (10 * acc + d))"

fun fields :: "string \<Rightarrow> string \<Rightarrow> string list" where
  "fields [] field = [field]"
| "fields (c # cs) field =
     (if c = CHR ''.'' then field # fields cs [] else fields cs (field @ [c]))"

fun triple :: "nat option list \<Rightarrow> (nat \<times> nat \<times> nat) option" where
  "triple [Some a] = Some (a, 0, 0)"
| "triple [Some a, Some b] = Some (a, b, 0)"
| "triple [Some a, Some b, Some c] = Some (a, b, c)"
| "triple ns = None"

definition dotted_version :: "string \<Rightarrow> error + nat \<times> nat \<times> nat" where
  "dotted_version s =
     (case triple (map (\<lambda>f. if f = [] then None else number f 0) (fields s [])) of
        None \<Rightarrow> Inl (ErrorString ''Invalid character(s) found in version'')
      | Some v \<Rightarrow> Inr v)"

text \<open>
  A client for the examples: its state is the list of answers it will give, one for each
  call, whatever the call. A call on the empty list fails.
\<close>

fun answer :: "(error + CustomResourceDefinition) list
                 \<Rightarrow> (error + CustomResourceDefinition) \<times> (error + CustomResourceDefinition) list" where
  "answer [] = (Inl (StatusError OtherReason ''no answer''), [])"
| "answer (r # rs) = (r, rs)"

definition scripted :: "(error + CustomResourceDefinition) list clientset" where
  "scripted =
     \<lparr>Get = (\<lambda>name. answer),
      Create = (\<lambda>crd. answer),
      Update = (\<lambda>crd. answer),
      Delete = (\<lambda>name rs. case answer rs of (r, rs') \<Rightarrow> (err_of r, rs'))\<rparr>"

text \<open>
  The objects of the examples: every embedded document holds the plural name of its kind,
  and the decoder returns a document with that plural name and a validation schema.
\<close>

definition example_doc :: "string \<Rightarrow> CustomResourceDefinition" where
  "example_doc plural =
     \<lparr>Name = [], Labels = Map.empty,
      Spec = \<lparr>Group = [], Version = [],
              Names = \<lparr>Plural = plural, Singular = [], ShortNames = [], Kind = []\<rparr>,
              AdditionalPrinterColumns = [], Subresources = None, Scope = ''Cluster'',
              Validation = Some (OpenAPIV3Schema ''schema'')\<rparr>,
      Conditions = []\<rparr>"

definition example_ext :: collaborators where
  "example_ext =
     \<lparr>GroupName = ''cilium.io'',
      examplesCrdsCiliumnetworkpoliciesYamlBytes = Inr ''ciliumnetworkpolicies'',
      examplesCrdsCiliumclusterwidenetworkpoliciesYamlBytes =
        Inr ''ciliumclusterwidenetworkpolicies'',
      examplesCrdsCiliumendpointsYamlBytes = Inr ''ciliumendpoints'',
      examplesCrdsCiliumnodesYamlBytes = Inr ''ciliumnodes'',
      examplesCrdsCiliumidentitiesYamlBytes = Inr ''ciliumidentities'',
      yaml_Unmarshal = (\<lambda>bytes. Inr (example_doc bytes)),
      IdentityAllocationMode = ''crd'',
      IdentityAllocationModeCRD = ''crd''\<rparr>"

text \<open>The descriptor of the node kind, as \<^verbatim>\<open>createNodeCRD\<close> builds it.\<close>

definition node_res :: CustomResourceDefinition where
  "node_res = res_CCNP example_ext (example_doc ''ciliumnodes'')"

text \<open>
  A live object with the given schema-version label and conditions, otherwise as the
  descriptor of the node kind.
\<close>

definition live ::
  "string \<Rightarrow> CustomResourceDefinitionCondition list \<Rightarrow> CustomResourceDefinition" where
  "live v conds =
     node_res\<lparr>Labels := [CustomResourceDefinitionSchemaVersionKey \<mapsto> v], Conditions := conds\<rparr>"

definition established_true :: CustomResourceDefinitionCondition where
  "established_true = \<lparr>Type = Established, Status = ConditionTrue, Reason = ''InitialNamesAccepted''\<rparr>"

definition names_rejected :: CustomResourceDefinitionCondition where
  "names_rejected = \<lparr>Type = NamesAccepted, Status = ConditionFalse, Reason = ''ShortNamesConflict''\<rparr>"

definition names_accepted :: CustomResourceDefinitionCondition where
  "names_accepted = \<lparr>Type = NamesAccepted, Status = ConditionTrue, Reason = ''NoConflicts''\<rparr>"

text \<open>An established live object without validation and without any label.\<close>

definition unlabelled :: CustomResourceDefinition where
  "unlabelled =
     (live [] [established_true])
       \<lparr>Labels := Map.empty,
        Spec := (Spec node_res)\<lparr>Validation := None\<rparr>\<rparr>"

text \<open>What the parser of the examples makes of the compiled-in schema version.\<close>

definition current_version :: "nat \<times> nat \<times> nat" where
  "current_version = (1, 18, 0)"

definition start :: "(error + CustomResourceDefinition) list
                       \<Rightarrow> (error + CustomResourceDefinition) list world" where
  "start answers = \<lparr>client = answers, trace = []\<rparr>"

section \<open>Properties\<close>

subsection \<open>Facts about the examples\<close>

lemma dotted_version_examples:
  "dotted_version ''1.17'' = Inr (1, 17, 0)"
  "dotted_version ''1.18'' = Inr (1, 18, 0)"
  "dotted_version ''1.19'' = Inr (1, 19, 0)"
  "dotted_version ''one.eighteen'' = Inl (ErrorString ''Invalid character(s) found in version'')"
  by (simp_all add: dotted_version_def digit_def)

lemma MustVersion_example:
  "MustVersion dotted_version CustomResourceDefinitionSchemaVersion = Some current_version"
  by (simp add: MustVersion_def CustomResourceDefinitionSchemaVersion_def
        dotted_version_examples current_version_def)

lemma node_res_simps:
  "Name node_res = ''ciliumnodes.cilium.io''"
  "Validation (Spec node_res) = Some (OpenAPIV3Schema ''schema'')"
  by (simp_all add: node_res_def res_CCNP_def descriptor_def example_ext_def example_doc_def)

lemma live_simps:
  "Validation (Spec (live v conds)) = Some (OpenAPIV3Schema ''schema'')"
  "Labels (live v conds) = [CustomResourceDefinitionSchemaVersionKey \<mapsto> v]"
  "Conditions (live v conds) = conds"
  "Name (live v conds) = ''ciliumnodes.cilium.io''"
  by (simp_all add: live_def node_res_simps)

lemma unlabelled_simps:
  "Labels unlabelled = Map.empty"
  "Conditions unlabelled = [established_true]"
  "Validation (Spec unlabelled) = None"
  by (simp_all add: unlabelled_def live_simps)

text \<open>The definitions that an example run unfolds.\<close>

lemmas run_defs =
  createUpdateCRD_def fetch_or_create_def update_if_needed_def wait_established_def
  established_condition_def update_condition_def do_Get_def do_Create_def do_Update_def
  do_Delete_def logf_def err_of_def label_value_def scripted_def start_def

lemmas condition_defs =
  established_true_def names_rejected_def Established_def NamesAccepted_def
  ConditionTrue_def ConditionFalse_def

lemma needsUpdate_live:
  "needsUpdate dotted_version current_version (live ''1.17'' conds)"
  "\<not> needsUpdate dotted_version current_version (live ''1.18'' conds)"
  by (simp_all add: needsUpdate_def live_simps dotted_version_examples current_version_def)

lemma matching_examples:
  "is_established established_true" "\<not> is_name_conflict established_true"
  "is_name_conflict names_rejected" "\<not> is_established names_rejected"
  "\<not> is_established names_accepted" "\<not> is_name_conflict names_accepted"
  "\<not> matching names_accepted" "Reason names_rejected = ''ShortNamesConflict''"
  by (simp_all add: matching_def is_established_def is_name_conflict_def condition_defs
        names_accepted_def)

lemma example_ext_simps:
  "GroupName example_ext = ''cilium.io''"
  "decode example_ext (examplesCrdsCiliumnetworkpoliciesYamlBytes example_ext)
     = Return (example_doc ''ciliumnetworkpolicies'')"
  "decode example_ext (examplesCrdsCiliumclusterwidenetworkpoliciesYamlBytes example_ext)
     = Return (example_doc ''ciliumclusterwidenetworkpolicies'')"
  "decode example_ext (examplesCrdsCiliumidentitiesYamlBytes example_ext)
     = Return (example_doc ''ciliumidentities'')"
  by (simp_all add: example_ext_def decode_def)

lemma example_names:
  "Name (res_CNP example_ext (example_doc ''ciliumnetworkpolicies''))
     = ''ciliumnetworkpolicies.cilium.io''"
  "Name (res_CCNP example_ext (example_doc ''ciliumclusterwidenetworkpolicies''))
     = ''ciliumclusterwidenetworkpolicies.cilium.io''"
  "Name (res_Identity example_ext (example_doc ''ciliumidentities''))
     = ''ciliumidentities.cilium.io''"
  by (simp_all add: res_CNP_def res_CCNP_def res_Identity_def descriptor_def
        example_ext_simps example_doc_def)

subsection \<open>The polling loop\<close>

text \<open>
  A run that is done, or that fails, ends the loop whatever the deadline allows; and what
  every run of the condition preserves, the loop preserves.
\<close>

lemma Poll_done:
  "condition st = ((True, None), st') \<Longrightarrow> Poll n condition st = (None, st')"
  by (cases n) simp_all

lemma Poll_error:
  "condition st = ((ok, Some e), st') \<Longrightarrow> Poll n condition st = (Some e, st')"
  by (cases n) simp_all

lemma Poll_preserves:
  assumes step: "\<And>st r st'. condition st = (r, st') \<Longrightarrow> f st' = f st"
  shows "Poll n condition st = (e, st') \<Longrightarrow> f st' = f st"
proof (induction n arbitrary: st)
  case 0
  obtain ok x st1 where c: "condition st = ((ok, x), st1)"
    by (metis surj_pair)
  with 0 have "st' = st1" by (auto split: option.splits if_splits)
  with step [OF c] show ?case by simp
next
  case (Suc n)
  obtain ok x st1 where c: "condition st = ((ok, x), st1)"
    by (metis surj_pair)
  show ?case
  proof (cases "x = None \<and> \<not> ok")
    case True
    with Suc.prems c have "Poll n condition st1 = (e, st')" by simp
    then have "f st' = f st1" by (rule Suc.IH)
    with step [OF c] show ?thesis by simp
  next
    case False
    with Suc.prems c have "st' = st1" by (auto split: option.splits if_splits)
    with step [OF c] show ?thesis by simp
  qed
qed

subsection \<open>Update calls in the trace\<close>

text \<open>
  Logging, Get, Create and Delete add no Update call; so neither the first phase nor the
  establishment wait does.
\<close>

lemma updates_simps:
  "updates (logf lvl name e msg w) = updates w"
  "updates \<lparr>client = s, trace = trace w @ [GetCall n]\<rparr> = updates w"
  "updates \<lparr>client = s, trace = trace w @ [CreateCall c]\<rparr> = updates w"
  "updates \<lparr>client = s, trace = trace w @ [DeleteCall n]\<rparr> = updates w"
  by (simp_all add: updates_def logf_def)

lemma updates_do_Get: "do_Get cs name w = (r, w') \<Longrightarrow> updates w' = updates w"
  by (auto simp: do_Get_def updates_def split: prod.splits)

lemma updates_do_Create: "do_Create cs crd w = (r, w') \<Longrightarrow> updates w' = updates w"
  by (auto simp: do_Create_def updates_def split: prod.splits)

lemma updates_do_Delete: "do_Delete cs name w = (r, w') \<Longrightarrow> updates w' = updates w"
  by (auto simp: do_Delete_def updates_def split: prod.splits)

lemma established_condition_updates:
  "established_condition cs crdName crd st = (r, st')
     \<Longrightarrow> updates (snd (snd st')) = updates (snd (snd st))"
  by (auto simp: established_condition_def updates_simps
           split: prod.splits scan.splits sum.splits dest: updates_do_Get)

lemma wait_established_updates:
  "updates (snd (wait_established cs n crdName crd clusterCRD w)) = updates w"
proof -
  let ?w0 = "logf DebugLevel crdName None
                ''Waiting for CRD (CustomResourceDefinition) to be available...'' w"
  obtain e c x w1 where p:
    "Poll n (established_condition cs crdName crd) (clusterCRD, None, ?w0) = (e, (c, x, w1))"
    by (metis surj_pair)
  have "updates (snd (snd (c, x, w1))) = updates (snd (snd (clusterCRD, None :: error option, ?w0)))"
    by (rule Poll_preserves [OF _ p]) (rule established_condition_updates)
  then have w1: "updates w1 = updates w" by (simp add: updates_simps)
  obtain d w2 where del: "do_Delete cs (Name crd) w1 = (d, w2)" by (metis surj_pair)
  from updates_do_Delete [OF del] w1 have "updates w2 = updates w" by simp
  with p del w1 show ?thesis
    by (auto simp: wait_established_def updates_simps split: option.splits)
qed

lemma fetch_or_create_updates:
  "fetch_or_create cs crdName crd w = Inl (r, w') \<Longrightarrow> updates w' = updates w"
  "fetch_or_create cs crdName crd w = Inr (c, w') \<Longrightarrow> updates w' = updates w"
  by (auto simp: fetch_or_create_def updates_simps
           split: prod.splits if_splits sum.splits
           dest!: updates_do_Get updates_do_Create)

subsection \<open>The gate and the update loop\<close>

text \<open>
  Without validation in the descriptor, or with an empty or absent label on the live
  object, the update phase only logs. A descriptor without validation therefore never
  leads to an Update call.
\<close>

lemma update_skipped:
  "\<not> (Validation (Spec crd) \<noteq> None
        \<and> label_value clusterCRD CustomResourceDefinitionSchemaVersionKey \<noteq> [])
     \<Longrightarrow> update_if_needed cs vc cur n crdName crd clusterCRD w =
           Inr (clusterCRD,
                logf DebugLevel crdName None
                  ''Checking if CRD (CustomResourceDefinition) needs update...'' w)"
  by (auto simp: update_if_needed_def Let_def)

lemma createUpdateCRD_without_validation:
  assumes "Validation (Spec crd) = None"
  shows "updates (snd (createUpdateCRD cs vc cur n_update n_wait crdName crd w)) = updates w"
proof (cases "fetch_or_create cs crdName crd w")
  case (Inl result)
  then show ?thesis
    using fetch_or_create_updates(1) [of cs crdName crd w "fst result" "snd result"]
    by (simp add: createUpdateCRD_def)
next
  case (Inr go)
  obtain clusterCRD w1 where go: "go = (clusterCRD, w1)" by (cases go)
  from Inr go fetch_or_create_updates(2) have w1: "updates w1 = updates w" by blast
  from assms have "update_if_needed cs vc cur n_update crdName crd clusterCRD w1 =
           Inr (clusterCRD,
                logf DebugLevel crdName None
                  ''Checking if CRD (CustomResourceDefinition) needs update...'' w1)"
    by (simp add: update_skipped)
  with Inr go w1 show ?thesis
    by (simp add: createUpdateCRD_def wait_established_updates updates_simps)
qed

text \<open>
  A run of the update closure never reports "not done" without an error: the loop ends
  with its first run, whatever the deadline allows.
\<close>

lemma update_condition_decides:
  "update_condition cs vc cur crdName crd st = ((ok, e), st') \<Longrightarrow> ok \<or> e \<noteq> None"
  by (auto simp: update_condition_def Let_def split: prod.splits sum.splits if_splits)

lemma update_loop_runs_once:
  "Poll n (update_condition cs vc cur crdName crd) st
     = Poll 0 (update_condition cs vc cur crdName crd) st"
proof -
  obtain ok e st' where c: "update_condition cs vc cur crdName crd st = ((ok, e), st')"
    by (metis surj_pair)
  from update_condition_decides [OF c] c show ?thesis
    by (cases n) (auto split: option.splits)
qed

subsection \<open>The scan of the conditions\<close>

text \<open>
  Entries that do not match are passed over. Once the scan stops at a name conflict, the
  closure changes nothing but the log, so every further run stops there too.
\<close>

lemma scan_conditions_skip:
  "\<forall>x \<in> set pre. \<not> matching x
     \<Longrightarrow> scan_conditions (pre @ rest) = scan_conditions rest"
  by (induction pre) (auto simp: matching_def is_established_def is_name_conflict_def)

lemma scan_conditions_none:
  "\<forall>x \<in> set conds. \<not> matching x \<Longrightarrow> scan_conditions conds = NothingFound"
  using scan_conditions_skip [of conds "[]"] by simp

lemma scan_conditions_established:
  "\<forall>x \<in> set pre. \<not> is_name_conflict x \<Longrightarrow> is_established cond
     \<Longrightarrow> scan_conditions (pre @ cond # post) = FoundEstablished"
  by (induction pre) (auto simp: is_established_def is_name_conflict_def)

lemma scan_conditions_name_conflict:
  "\<forall>x \<in> set pre. \<not> matching x \<Longrightarrow> is_name_conflict cond
     \<Longrightarrow> scan_conditions (pre @ cond # post) = FoundNameConflict (Reason cond)"
  by (simp add: scan_conditions_skip is_name_conflict_def Established_def NamesAccepted_def)

lemma name_conflict_step:
  "scan_conditions (Conditions clusterCRD) = FoundNameConflict reason
     \<Longrightarrow> established_condition cs crdName crd (clusterCRD, err, w) =
           ((False, err),
            (clusterCRD, err,
             logf ErrorLevel crdName (Some (ErrorString reason)) ''Name conflict for CRD'' w))"
  by (simp add: established_condition_def)

lemma name_conflict_poll:
  "scan_conditions (Conditions clusterCRD) = FoundNameConflict reason
     \<Longrightarrow> Poll n (established_condition cs crdName crd) (clusterCRD, None, w) =
           (Some ErrWaitTimeout,
            (clusterCRD, None,
             w\<lparr>trace := trace w @
                  replicate (Suc n)
                    (LogEntry ErrorLevel crdName (Some (ErrorString reason))
                       ''Name conflict for CRD'')\<rparr>))"
proof (induction n arbitrary: w)
  case 0
  then show ?case by (simp add: name_conflict_step logf_def)
next
  case (Suc n)
  show ?case
    by (simp add: name_conflict_step [OF Suc.prems] Suc.IH [OF Suc.prems] logf_def
          replicate_append_same)
qed

text \<open>
  The whole wait on such an object: the log line of the wait, one conflict entry for
  every run, the time-out, and the Delete.
\<close>

lemma name_conflict_wait:
  assumes "scan_conditions (Conditions clusterCRD) = FoundNameConflict reason"
    and "Delete cs (Name crd) (client w) = (d, s)"
  shows "wait_established cs n crdName crd clusterCRD w =
           (case d of
              None \<Rightarrow> Some ErrWaitTimeout
            | Some deleteErr \<Rightarrow> Some (delete_failed crdName deleteErr ErrWaitTimeout),
            \<lparr>client = s,
             trace = trace w @
               LogEntry DebugLevel crdName None
                 ''Waiting for CRD (CustomResourceDefinition) to be available...''
               # replicate (Suc n)
                   (LogEntry ErrorLevel crdName (Some (ErrorString reason))
                      ''Name conflict for CRD'')
               @ [DeleteCall (Name crd)]\<rparr>)"
  using assms(2)
  by (simp add: wait_established_def name_conflict_poll [OF assms(1)] do_Delete_def logf_def
        split: option.splits)

subsection \<open>A pass that finds nothing to do\<close>

lemma up_to_date_pass:
  assumes "Get cs (Name crd) (client w) = (Inr c, s1)"
    and "\<not> needsUpdate vc cur c"
    and "scan_conditions (Conditions c) = FoundEstablished"
  shows "createUpdateCRD cs vc cur n_update n_wait crdName crd w =
           (None,
            \<lparr>client = s1,
             trace = trace w @
               [GetCall (Name crd),
                LogEntry DebugLevel crdName None
                  ''Checking if CRD (CustomResourceDefinition) needs update...'',
                LogEntry DebugLevel crdName None
                  ''Waiting for CRD (CustomResourceDefinition) to be available...'',
                LogEntry InfoLevel crdName None
                  ''CRD (CustomResourceDefinition) is installed and up-to-date'']\<rparr>)"
proof -
  let ?w1 = "\<lparr>client = s1, trace = trace w @ [GetCall (Name crd)]\<rparr>"
  let ?w2 = "logf DebugLevel crdName None
               ''Checking if CRD (CustomResourceDefinition) needs update...'' ?w1"
  let ?w3 = "logf DebugLevel crdName None
               ''Waiting for CRD (CustomResourceDefinition) to be available...'' ?w2"
  have f: "fetch_or_create cs crdName crd w = Inr (c, ?w1)"
    using assms(1) by (simp add: fetch_or_create_def do_Get_def err_of_def)
  have u: "update_if_needed cs vc cur n_update crdName crd c ?w1 = Inr (c, ?w2)"
    using assms(2) by (simp add: update_if_needed_def Let_def)
  have p: "Poll n_wait (established_condition cs crdName crd) (c, None, ?w3)
             = (None, (c, None, ?w3))"
    by (rule Poll_done) (simp add: established_condition_def assms(3))
  show ?thesis
    using f u p by (simp add: createUpdateCRD_def wait_established_def logf_def)
qed

subsection \<open>The text of the combined error\<close>

lemma delete_failed_text:
  "\<exists>before after. Error (delete_failed crdName deleteErr err)
                 = before @ Error deleteErr @ after"
  "\<exists>before after. Error (delete_failed crdName deleteErr err)
                 = before @ Error err @ after"
proof -
  show "\<exists>before after. Error (delete_failed crdName deleteErr err)
                 = before @ Error deleteErr @ after"
    unfolding delete_failed_def Error.simps
    by (rule exI [of _ "''unable to delete k8s '' @ crdName @ '' CRD ''"],
        rule exI [of _ "''. Deleting CRD due: '' @ Error err"]) simp
  show "\<exists>before after. Error (delete_failed crdName deleteErr err)
                 = before @ Error err @ after"
    unfolding delete_failed_def Error.simps
    by (rule exI [of _ "''unable to delete k8s '' @ crdName @ '' CRD '' @ Error deleteErr
                          @ ''. Deleting CRD due: ''"],
        rule exI [of _ "[]"]) simp
qed

subsection \<open>When a live object needs an update\<close>

text \<open>
  C1. Let \<open>cur\<close> be the version that the compiled-in schema version string \<^verbatim>\<open>1.18\<close>
  parses to. For a live object, \<open>needsUpdate\<close> is true exactly when the object has no
  validation schema, or no schema-version label, or a label that does not parse, or a label
  that parses to a version strictly less than \<open>cur\<close>. It is false when validation is
  present and the label parses to a version equal to or greater than \<open>cur\<close>; the label
  \<^verbatim>\<open>1.18\<close> itself is such a label.
\<close>

theorem needsUpdate_by_version:
  assumes "MustVersion vc CustomResourceDefinitionSchemaVersion = Some cur"
  shows "(needsUpdate vc cur clusterCRD \<longleftrightarrow>
            Validation (Spec clusterCRD) = None
            \<or> Labels clusterCRD CustomResourceDefinitionSchemaVersionKey = None
            \<or> (\<exists>v e. Labels clusterCRD CustomResourceDefinitionSchemaVersionKey = Some v
                      \<and> vc v = Inl e)
            \<or> (\<exists>v ver. Labels clusterCRD CustomResourceDefinitionSchemaVersionKey = Some v
                      \<and> vc v = Inr ver \<and> ver < cur))
         \<and> (\<forall>v ver. Validation (Spec clusterCRD) \<noteq> None
                \<and> Labels clusterCRD CustomResourceDefinitionSchemaVersionKey = Some v
                \<and> vc v = Inr ver \<and> cur \<le> ver
              \<longrightarrow> \<not> needsUpdate vc cur clusterCRD)
         \<and> (Validation (Spec clusterCRD) \<noteq> None
              \<and> Labels clusterCRD CustomResourceDefinitionSchemaVersionKey
                  = Some CustomResourceDefinitionSchemaVersion
              \<longrightarrow> \<not> needsUpdate vc cur clusterCRD)"
proof -
  from assms have cur: "vc CustomResourceDefinitionSchemaVersion = Inr cur"
    by (simp add: MustVersion_def split: sum.splits)
  have exactly: "needsUpdate vc cur clusterCRD \<longleftrightarrow>
            Validation (Spec clusterCRD) = None
            \<or> Labels clusterCRD CustomResourceDefinitionSchemaVersionKey = None
            \<or> (\<exists>v e. Labels clusterCRD CustomResourceDefinitionSchemaVersionKey = Some v
                      \<and> vc v = Inl e)
            \<or> (\<exists>v ver. Labels clusterCRD CustomResourceDefinitionSchemaVersionKey = Some v
                      \<and> vc v = Inr ver \<and> ver < cur)"
    by (auto simp: needsUpdate_def split: option.splits sum.splits)
  have not_older: "\<forall>v ver. Validation (Spec clusterCRD) \<noteq> None
                \<and> Labels clusterCRD CustomResourceDefinitionSchemaVersionKey = Some v
                \<and> vc v = Inr ver \<and> cur \<le> ver
              \<longrightarrow> \<not> needsUpdate vc cur clusterCRD"
    by (auto simp: needsUpdate_def)
  have same: "Validation (Spec clusterCRD) \<noteq> None
              \<and> Labels clusterCRD CustomResourceDefinitionSchemaVersionKey
                  = Some CustomResourceDefinitionSchemaVersion
              \<longrightarrow> \<not> needsUpdate vc cur clusterCRD"
    using cur by (auto simp: needsUpdate_def)
  from exactly not_older same show ?thesis by blast
qed

theorem needsUpdate_by_version_witness:
  "MustVersion dotted_version CustomResourceDefinitionSchemaVersion = Some current_version
   \<and> needsUpdate dotted_version current_version (live ''1.17'' [])
   \<and> needsUpdate dotted_version current_version (live ''one.eighteen'' [])
   \<and> \<not> needsUpdate dotted_version current_version (live ''1.18'' [])
   \<and> \<not> needsUpdate dotted_version current_version (live ''1.19'' [])"
  using MustVersion_example
    needsUpdate_by_version [OF MustVersion_example, of "live ''1.17'' []"]
    needsUpdate_by_version [OF MustVersion_example, of "live ''one.eighteen'' []"]
    needsUpdate_by_version [OF MustVersion_example, of "live ''1.18'' []"]
    needsUpdate_by_version [OF MustVersion_example, of "live ''1.19'' []"]
  by (simp add: live_simps dotted_version_examples CustomResourceDefinitionSchemaVersion_def
        current_version_def)

subsection \<open>The race to create\<close>

text \<open>
  C2. When the first Get reports not-found and the Create that follows reports
  already-exists, \<open>createUpdateCRD\<close> returns no error at once: the trace grows by the Get,
  the log line and the Create only, so no Update is issued in that pass.
\<close>

theorem create_race_is_success:
  assumes "Get cs (Name crd) (client w) = (Inl e, s1)" and "IsNotFound (Some e)"
    and "Create cs crd s1 = (Inl e', s2)" and "IsAlreadyExists (Some e')"
  shows "createUpdateCRD cs vc cur n_update n_wait crdName crd w =
           (None,
            \<lparr>client = s2,
             trace = trace w @
               [GetCall (Name crd),
                LogEntry InfoLevel crdName None ''Creating CRD (CustomResourceDefinition)...'',
                CreateCall crd]\<rparr>)
         \<and> updates (snd (createUpdateCRD cs vc cur n_update n_wait crdName crd w)) = updates w"
  using assms
  by (simp add: createUpdateCRD_def fetch_or_create_def do_Get_def do_Create_def logf_def
        err_of_def updates_def)

theorem create_race_is_success_witness:
  "createUpdateCRD scripted dotted_version current_version 119 119 ''v2.CiliumNode'' node_res
     (start [Inl (StatusError NotFound ''not found''),
             Inl (StatusError AlreadyExists ''already exists''),
             Inr (live ''1.17'' [])])
   = (None,
      \<lparr>client = [Inr (live ''1.17'' [])],
       trace = [GetCall ''ciliumnodes.cilium.io'',
                LogEntry InfoLevel ''v2.CiliumNode'' None
                  ''Creating CRD (CustomResourceDefinition)...'',
                CreateCall node_res]\<rparr>)"
  using create_race_is_success
    [where cs = scripted and crd = node_res and crdName = "''v2.CiliumNode''"
       and vc = dotted_version and cur = "current_version" and n_update = 119 and n_wait = 119
       and w = "start [Inl (StatusError NotFound ''not found''),
                       Inl (StatusError AlreadyExists ''already exists''),
                       Inr (live ''1.17'' [])]"
       and e = "StatusError NotFound ''not found''"
       and e' = "StatusError AlreadyExists ''already exists''"
       and ?s1.0 = "[Inl (StatusError AlreadyExists ''already exists''), Inr (live ''1.17'' [])]"
       and ?s2.0 = "[Inr (live ''1.17'' [])]"]
  by (simp add: scripted_def start_def node_res_simps)

subsection \<open>A failed Update\<close>

text \<open>
  C3. In the update loop, an Update that fails is not retried: whatever the error (a
  conflict included) and however many runs the deadline still allows, the loop ends with
  the first run, one Update call is in the trace, and \<open>createUpdateCRD\<close> returns that
  error to its caller.
\<close>

theorem update_error_is_returned:
  assumes "Get cs (Name crd) (client w) = (Inr clusterCRD, s1)"
    and "Validation (Spec crd) \<noteq> None"
    and "label_value clusterCRD CustomResourceDefinitionSchemaVersionKey \<noteq> []"
    and "needsUpdate vc cur clusterCRD"
    and "Get cs (Name crd) s1 = (Inr fetched, s2)"
    and "needsUpdate vc cur fetched"
    and "Update cs (fetched\<lparr>Labels := Labels crd, Spec := Spec crd\<rparr>) s2 = (Inl e, s3)"
  shows "createUpdateCRD cs vc cur n_update n_wait crdName crd w =
           (Some e,
            \<lparr>client = s3,
             trace = trace w @
               [GetCall (Name crd),
                LogEntry DebugLevel crdName None
                  ''Checking if CRD (CustomResourceDefinition) needs update...'',
                LogEntry InfoLevel crdName None ''Updating CRD (CustomResourceDefinition)...'',
                GetCall (Name crd),
                LogEntry DebugLevel crdName None ''CRD validation is different, updating it...'',
                UpdateCall (fetched\<lparr>Labels := Labels crd, Spec := Spec crd\<rparr>),
                LogEntry DebugLevel crdName (Some e) ''Unable to update CRD validation'',
                LogEntry ErrorLevel crdName (Some e) ''Unable to update CRD'']\<rparr>)"
proof -
  let ?w1 = "\<lparr>client = s1, trace = trace w @ [GetCall (Name crd)]\<rparr>"
  let ?w2 = "logf InfoLevel crdName None ''Updating CRD (CustomResourceDefinition)...''
               (logf DebugLevel crdName None
                  ''Checking if CRD (CustomResourceDefinition) needs update...'' ?w1)"
  let ?changed = "fetched\<lparr>Labels := Labels crd, Spec := Spec crd\<rparr>"
  let ?w3 = "\<lparr>client = s3,
              trace = trace w @
               [GetCall (Name crd),
                LogEntry DebugLevel crdName None
                  ''Checking if CRD (CustomResourceDefinition) needs update...'',
                LogEntry InfoLevel crdName None ''Updating CRD (CustomResourceDefinition)...'',
                GetCall (Name crd),
                LogEntry DebugLevel crdName None ''CRD validation is different, updating it...'',
                UpdateCall ?changed,
                LogEntry DebugLevel crdName (Some e) ''Unable to update CRD validation'']\<rparr>"
  have f: "fetch_or_create cs crdName crd w = Inr (clusterCRD, ?w1)"
    using assms(1) by (simp add: fetch_or_create_def do_Get_def err_of_def)
  have c: "update_condition cs vc cur crdName crd (clusterCRD, ?w2)
             = ((False, Some e), (?changed, ?w3))"
    using assms(5,6,7)
    by (simp add: update_condition_def do_Get_def do_Update_def logf_def Let_def)
  have p: "Poll n_update (update_condition cs vc cur crdName crd) (clusterCRD, ?w2)
             = (Some e, (?changed, ?w3))"
    using c by (rule Poll_error)
  have u: "update_if_needed cs vc cur n_update crdName crd clusterCRD ?w1
             = Inl (Some e, logf ErrorLevel crdName (Some e) ''Unable to update CRD'' ?w3)"
    using assms(2,3,4) p by (simp add: update_if_needed_def Let_def)
  show ?thesis
    using f u by (simp add: createUpdateCRD_def logf_def)
qed

theorem update_error_is_returned_witness:
  "createUpdateCRD scripted dotted_version current_version 119 119 ''v2.CiliumNode'' node_res
     (start [Inr (live ''1.17'' [established_true]),
             Inr (live ''1.17'' [established_true]),
             Inl (StatusError Conflict ''the object has been modified''),
             Inr (live ''1.17'' [established_true]),
             Inr (live ''1.18'' [established_true])])
   = (Some (StatusError Conflict ''the object has been modified''),
      \<lparr>client = [Inr (live ''1.17'' [established_true]),
                 Inr (live ''1.18'' [established_true])],
       trace =
         [GetCall ''ciliumnodes.cilium.io'',
          LogEntry DebugLevel ''v2.CiliumNode'' None
            ''Checking if CRD (CustomResourceDefinition) needs update...'',
          LogEntry InfoLevel ''v2.CiliumNode'' None
            ''Updating CRD (CustomResourceDefinition)...'',
          GetCall ''ciliumnodes.cilium.io'',
          LogEntry DebugLevel ''v2.CiliumNode'' None
            ''CRD validation is different, updating it...'',
          UpdateCall ((live ''1.17'' [established_true])
                        \<lparr>Labels := Labels node_res, Spec := Spec node_res\<rparr>),
          LogEntry DebugLevel ''v2.CiliumNode''
            (Some (StatusError Conflict ''the object has been modified''))
            ''Unable to update CRD validation'',
          LogEntry ErrorLevel ''v2.CiliumNode''
            (Some (StatusError Conflict ''the object has been modified''))
            ''Unable to update CRD'']\<rparr>)"
  using update_error_is_returned
    [where cs = scripted and crd = node_res and crdName = "''v2.CiliumNode''"
       and vc = dotted_version and cur = "current_version" and n_update = 119 and n_wait = 119
       and w = "start [Inr (live ''1.17'' [established_true]),
                       Inr (live ''1.17'' [established_true]),
                       Inl (StatusError Conflict ''the object has been modified''),
                       Inr (live ''1.17'' [established_true]),
                       Inr (live ''1.18'' [established_true])]"
       and clusterCRD = "live ''1.17'' [established_true]"
       and fetched = "live ''1.17'' [established_true]"
       and e = "StatusError Conflict ''the object has been modified''"
       and ?s1.0 = "[Inr (live ''1.17'' [established_true]),
                     Inl (StatusError Conflict ''the object has been modified''),
                     Inr (live ''1.17'' [established_true]),
                     Inr (live ''1.18'' [established_true])]"
       and ?s2.0 = "[Inl (StatusError Conflict ''the object has been modified''),
                     Inr (live ''1.17'' [established_true]),
                     Inr (live ''1.18'' [established_true])]"
       and ?s3.0 = "[Inr (live ''1.17'' [established_true]),
                     Inr (live ''1.18'' [established_true])]"]
  by (simp add: scripted_def start_def node_res_simps needsUpdate_live label_value_def
        live_simps)

subsection \<open>A failed establishment wait\<close>

text \<open>
  C4. When \<open>createUpdateCRD\<close> reaches the establishment wait and the wait ends with an
  error, a Delete for the name of the object is the next and last call, and the result is
  an error: the error of the wait when the Delete succeeds, and otherwise one error whose
  text contains the text of the Delete error and the text of the error of the wait.
\<close>

theorem failed_wait_deletes:
  assumes "fetch_or_create cs crdName crd w = Inr (c0, w0)"
    and "update_if_needed cs vc cur n_update crdName crd c0 w0 = Inr (clusterCRD, w1)"
    and "Poll n_wait (established_condition cs crdName crd)
           (clusterCRD, None,
            logf DebugLevel crdName None
              ''Waiting for CRD (CustomResourceDefinition) to be available...'' w1)
         = (Some err, (c, e, w2))"
    and "Delete cs (Name crd) (client w2) = (d, s)"
  shows "createUpdateCRD cs vc cur n_update n_wait crdName crd w =
           (case d of
              None \<Rightarrow> Some err
            | Some deleteErr \<Rightarrow> Some (delete_failed crdName deleteErr err),
            \<lparr>client = s, trace = trace w2 @ [DeleteCall (Name crd)]\<rparr>)
         \<and> fst (createUpdateCRD cs vc cur n_update n_wait crdName crd w) \<noteq> None
         \<and> (\<forall>deleteErr. d = Some deleteErr \<longrightarrow>
              (\<exists>both. fst (createUpdateCRD cs vc cur n_update n_wait crdName crd w) = Some both
                 \<and> (\<exists>before after. Error both = before @ Error deleteErr @ after)
                 \<and> (\<exists>before after. Error both = before @ Error err @ after)))"
proof -
  have run: "createUpdateCRD cs vc cur n_update n_wait crdName crd w =
           (case d of
              None \<Rightarrow> Some err
            | Some deleteErr \<Rightarrow> Some (delete_failed crdName deleteErr err),
            \<lparr>client = s, trace = trace w2 @ [DeleteCall (Name crd)]\<rparr>)"
    using assms
    by (simp add: createUpdateCRD_def wait_established_def do_Delete_def split: option.splits)
  show ?thesis
    unfolding run using delete_failed_text [of crdName _ err]
    by (auto split: option.splits)
qed

theorem failed_wait_deletes_witness:
  "createUpdateCRD scripted dotted_version current_version 119 119 ''v2.CiliumNode'' node_res
     (start [Inr (live ''1.18'' []),
             Inl (StatusError OtherReason ''connection refused''),
             Inl (StatusError OtherReason ''forbidden'')])
   = (Some (ErrorString
        ''unable to delete k8s v2.CiliumNode CRD forbidden. Deleting CRD due: connection refused''),
      \<lparr>client = [],
       trace = [GetCall ''ciliumnodes.cilium.io'',
                LogEntry DebugLevel ''v2.CiliumNode'' None
                  ''Checking if CRD (CustomResourceDefinition) needs update...'',
                LogEntry DebugLevel ''v2.CiliumNode'' None
                  ''Waiting for CRD (CustomResourceDefinition) to be available...'',
                GetCall ''ciliumnodes.cilium.io'',
                DeleteCall ''ciliumnodes.cilium.io'']\<rparr>)"
proof -
  let ?refused = "StatusError OtherReason ''connection refused''"
  let ?forbidden = "StatusError OtherReason ''forbidden''"
  let ?checking = "LogEntry DebugLevel ''v2.CiliumNode'' None
                     ''Checking if CRD (CustomResourceDefinition) needs update...''"
  let ?waiting = "LogEntry DebugLevel ''v2.CiliumNode'' None
                    ''Waiting for CRD (CustomResourceDefinition) to be available...''"
  have f: "fetch_or_create scripted ''v2.CiliumNode'' node_res
             (start [Inr (live ''1.18'' []), Inl ?refused, Inl ?forbidden])
           = Inr (live ''1.18'' [],
                  \<lparr>client = [Inl ?refused, Inl ?forbidden],
                   trace = [GetCall ''ciliumnodes.cilium.io'']\<rparr>)"
    by (simp add: run_defs node_res_simps)
  have u: "update_if_needed scripted dotted_version current_version 119 ''v2.CiliumNode'' node_res
             (live ''1.18'' [])
             \<lparr>client = [Inl ?refused, Inl ?forbidden],
              trace = [GetCall ''ciliumnodes.cilium.io'']\<rparr>
           = Inr (live ''1.18'' [],
                  \<lparr>client = [Inl ?refused, Inl ?forbidden],
                   trace = [GetCall ''ciliumnodes.cilium.io'', ?checking]\<rparr>)"
    by (simp add: update_if_needed_def needsUpdate_live logf_def)
  have p: "Poll 119 (established_condition scripted ''v2.CiliumNode'' node_res)
             (live ''1.18'' [], None,
              logf DebugLevel ''v2.CiliumNode'' None
                ''Waiting for CRD (CustomResourceDefinition) to be available...''
                \<lparr>client = [Inl ?refused, Inl ?forbidden],
                 trace = [GetCall ''ciliumnodes.cilium.io'', ?checking]\<rparr>)
           = (Some ?refused,
              (live ''1.18'' [], Some ?refused,
               \<lparr>client = [Inl ?forbidden],
                trace = [GetCall ''ciliumnodes.cilium.io'', ?checking, ?waiting,
                         GetCall ''ciliumnodes.cilium.io'']\<rparr>))"
    by (rule Poll_error [where ok = False])
       (simp add: established_condition_def live_simps do_Get_def scripted_def logf_def
          node_res_simps)
  have d: "Delete scripted (Name node_res)
             (client \<lparr>client = [Inl ?forbidden],
                      trace = [GetCall ''ciliumnodes.cilium.io'', ?checking, ?waiting,
                               GetCall ''ciliumnodes.cilium.io'']\<rparr>)
           = (Some ?forbidden, [])"
    by (simp add: scripted_def err_of_def)
  show ?thesis
    using failed_wait_deletes [OF f u p d]
    by (simp add: delete_failed_def node_res_simps)
qed

subsection \<open>The order of the kinds\<close>

text \<open>
  C5. \<open>CreateCustomResourceDefinitions\<close> runs the reconcilers of the network policy, the
  cluster-wide network policy, the endpoint and the node kind in this order, and that of
  the identity kind after them exactly when the identity allocation mode is the CRD mode;
  the first error ends the sequence and is the result.
\<close>

theorem reconcilers_in_order:
  "CreateCustomResourceDefinitions cs vc cur n_update n_wait ext w =
     in_order
       ([createCNPCRD cs vc cur n_update n_wait ext,
         createCCNPCRD cs vc cur n_update n_wait ext,
         createCEPCRD cs vc cur n_update n_wait ext,
         createNodeCRD cs vc cur n_update n_wait ext]
        @ (if IdentityAllocationMode ext = IdentityAllocationModeCRD ext
           then [createIdentityCRD cs vc cur n_update n_wait ext] else []))
       w"
  by (simp add: CreateCustomResourceDefinitions_def
           split: outcome.splits option.splits prod.splits)

theorem reconcilers_in_order_witness:
  "CreateCustomResourceDefinitions scripted dotted_version current_version 119 119 example_ext
     (start [Inr (live ''1.18'' [established_true]),
             Inl (StatusError OtherReason ''server down''),
             Inr (live ''1.18'' [established_true])])
   = Return
       (Some (StatusError OtherReason ''server down''),
        \<lparr>client = [Inr (live ''1.18'' [established_true])],
         trace =
           [GetCall ''ciliumnetworkpolicies.cilium.io'',
            LogEntry DebugLevel ''CiliumNetworkPolicy/v2'' None
              ''Checking if CRD (CustomResourceDefinition) needs update...'',
            LogEntry DebugLevel ''CiliumNetworkPolicy/v2'' None
              ''Waiting for CRD (CustomResourceDefinition) to be available...'',
            LogEntry InfoLevel ''CiliumNetworkPolicy/v2'' None
              ''CRD (CustomResourceDefinition) is installed and up-to-date'',
            GetCall ''ciliumclusterwidenetworkpolicies.cilium.io'']\<rparr>)"
proof -
  let ?c = "live ''1.18'' [established_true]"
  let ?down = "StatusError OtherReason ''server down''"
  let ?w1 = "\<lparr>client = [Inl ?down, Inr ?c],
         trace =
           [GetCall ''ciliumnetworkpolicies.cilium.io'',
            LogEntry DebugLevel ''CiliumNetworkPolicy/v2'' None
              ''Checking if CRD (CustomResourceDefinition) needs update...'',
            LogEntry DebugLevel ''CiliumNetworkPolicy/v2'' None
              ''Waiting for CRD (CustomResourceDefinition) to be available...'',
            LogEntry InfoLevel ''CiliumNetworkPolicy/v2'' None
              ''CRD (CustomResourceDefinition) is installed and up-to-date'']\<rparr>"
  have g: "Get scripted (Name (res_CNP example_ext (example_doc ''ciliumnetworkpolicies'')))
             (client (start [Inr ?c, Inl ?down, Inr ?c])) = (Inr ?c, [Inl ?down, Inr ?c])"
    by (simp add: scripted_def start_def)
  have n: "\<not> needsUpdate dotted_version current_version ?c"
    by (rule needsUpdate_live)
  have s: "scan_conditions (Conditions ?c) = FoundEstablished"
    by (simp add: live_simps condition_defs)
  have cnp: "createCNPCRD scripted dotted_version current_version 119 119 example_ext
               (start [Inr ?c, Inl ?down, Inr ?c]) = Return (None, ?w1)"
    using up_to_date_pass [OF g n s, of 119 119 "''CiliumNetworkPolicy/v2''"]
    by (simp add: createCNPCRD_def example_ext_simps example_names start_def)
  have ccnp: "createCCNPCRD scripted dotted_version current_version 119 119 example_ext ?w1
      = Return
       (Some ?down,
        \<lparr>client = [Inr ?c],
         trace =
           [GetCall ''ciliumnetworkpolicies.cilium.io'',
            LogEntry DebugLevel ''CiliumNetworkPolicy/v2'' None
              ''Checking if CRD (CustomResourceDefinition) needs update...'',
            LogEntry DebugLevel ''CiliumNetworkPolicy/v2'' None
              ''Waiting for CRD (CustomResourceDefinition) to be available...'',
            LogEntry InfoLevel ''CiliumNetworkPolicy/v2'' None
              ''CRD (CustomResourceDefinition) is installed and up-to-date'',
            GetCall ''ciliumclusterwidenetworkpolicies.cilium.io'']\<rparr>)"
    by (simp add: createCCNPCRD_def example_ext_simps example_names createUpdateCRD_def
          fetch_or_create_def do_Get_def scripted_def err_of_def)
  show ?thesis
    unfolding reconcilers_in_order by (simp add: cnp ccnp)
qed

subsection \<open>The gate of the update phase\<close>

text \<open>
  C6. Unless the descriptor has a validation schema and the live object has a non-empty
  schema-version label, the update phase is skipped: it only writes its log line, and
  \<open>createUpdateCRD\<close> goes on with the establishment wait on the object and the cluster as
  the first phase left them, with no Update call.
\<close>

theorem update_phase_gate:
  assumes "fetch_or_create cs crdName crd w = Inr (clusterCRD, w1)"
    and "\<not> (Validation (Spec crd) \<noteq> None
            \<and> (\<exists>v. Labels clusterCRD CustomResourceDefinitionSchemaVersionKey = Some v \<and> v \<noteq> []))"
  shows "update_if_needed cs vc cur n_update crdName crd clusterCRD w1 =
           Inr (clusterCRD,
                logf DebugLevel crdName None
                  ''Checking if CRD (CustomResourceDefinition) needs update...'' w1)
         \<and> createUpdateCRD cs vc cur n_update n_wait crdName crd w =
             wait_established cs n_wait crdName crd clusterCRD
               (logf DebugLevel crdName None
                  ''Checking if CRD (CustomResourceDefinition) needs update...'' w1)
         \<and> updates (snd (createUpdateCRD cs vc cur n_update n_wait crdName crd w)) = updates w"
proof -
  from assms(2) have skip:
    "update_if_needed cs vc cur n_update crdName crd clusterCRD w1 =
       Inr (clusterCRD,
            logf DebugLevel crdName None
              ''Checking if CRD (CustomResourceDefinition) needs update...'' w1)"
    by (auto simp: update_if_needed_def label_value_def Let_def split: option.splits)
  with assms(1) have run:
    "createUpdateCRD cs vc cur n_update n_wait crdName crd w =
       wait_established cs n_wait crdName crd clusterCRD
         (logf DebugLevel crdName None
            ''Checking if CRD (CustomResourceDefinition) needs update...'' w1)"
    by (simp add: createUpdateCRD_def)
  from fetch_or_create_updates(2) [OF assms(1)] have "updates w1 = updates w" .
  with skip run show ?thesis
    by (simp add: wait_established_updates updates_simps)
qed

theorem update_phase_gate_witness:
  "needsUpdate dotted_version current_version unlabelled
   \<and> createUpdateCRD scripted dotted_version current_version 119 119 ''v2.CiliumNode'' node_res
       (start [Inr unlabelled, Inr (live ''1.18'' [])])
     = (None,
        \<lparr>client = [Inr (live ''1.18'' [])],
         trace = [GetCall ''ciliumnodes.cilium.io'',
                  LogEntry DebugLevel ''v2.CiliumNode'' None
                    ''Checking if CRD (CustomResourceDefinition) needs update...'',
                  LogEntry DebugLevel ''v2.CiliumNode'' None
                    ''Waiting for CRD (CustomResourceDefinition) to be available...'',
                  LogEntry InfoLevel ''v2.CiliumNode'' None
                    ''CRD (CustomResourceDefinition) is installed and up-to-date'']\<rparr>)"
proof -
  have f: "fetch_or_create scripted ''v2.CiliumNode'' node_res
             (start [Inr unlabelled, Inr (live ''1.18'' [])])
           = Inr (unlabelled,
                  \<lparr>client = [Inr (live ''1.18'' [])],
                   trace = [GetCall ''ciliumnodes.cilium.io'']\<rparr>)"
    by (simp add: run_defs node_res_simps)
  have g: "\<not> (Validation (Spec node_res) \<noteq> None
            \<and> (\<exists>v. Labels unlabelled CustomResourceDefinitionSchemaVersionKey = Some v
                   \<and> v \<noteq> []))"
    by (simp add: unlabelled_simps)
  have n: "needsUpdate dotted_version current_version unlabelled"
    by (simp add: needsUpdate_def unlabelled_simps)
  have p: "Poll 119 (established_condition scripted ''v2.CiliumNode'' node_res)
             (unlabelled, None, w) = (None, (unlabelled, None, w))" for w
    by (rule Poll_done) (simp add: established_condition_def unlabelled_simps condition_defs)
  show ?thesis
    using n update_phase_gate [OF f g, of dotted_version "current_version" 119 119]
    by (simp add: wait_established_def p logf_def)
qed

subsection \<open>Two passes over an up-to-date object\<close>




subsection \<open>A name conflict during the wait\<close>

text \<open>
  C8. When a run of the establishment wait stops at a NamesAccepted entry with status
  false and no fetch has failed, the run logs the reason and reports "not done" without
  an error, and the loop uses every run that the deadline allows, each logging the
  reason, and ends with the time-out only. So a call of \<open>createUpdateCRD\<close> that reaches
  the wait with such an object does not end before the deadline: after the log line of
  the wait, its trace holds one conflict entry for every run that the deadline allows and
  then the Delete, and the error it returns is the time-out (inside the combined error
  when the Delete fails too), never the name conflict.
\<close>

theorem name_conflict_keeps_polling:
  assumes "scan_conditions (Conditions clusterCRD) = FoundNameConflict reason"
  shows "established_condition cs crdName crd (clusterCRD, None, w) =
           ((False, None),
            (clusterCRD, None,
             logf ErrorLevel crdName (Some (ErrorString reason)) ''Name conflict for CRD'' w))
         \<and> Poll n (established_condition cs crdName crd) (clusterCRD, None, w) =
           (Some ErrWaitTimeout,
            (clusterCRD, None,
             w\<lparr>trace := trace w @
                  replicate (Suc n)
                    (LogEntry ErrorLevel crdName (Some (ErrorString reason))
                       ''Name conflict for CRD'')\<rparr>))
         \<and> (\<forall>w0 c0 w1 w2 d s.
               fetch_or_create cs crdName crd w0 = Inr (c0, w1)
               \<and> update_if_needed cs vc cur n_update crdName crd c0 w1 = Inr (clusterCRD, w2)
               \<and> Delete cs (Name crd) (client w2) = (d, s)
               \<longrightarrow> createUpdateCRD cs vc cur n_update n_wait crdName crd w0 =
                     (case d of
                        None \<Rightarrow> Some ErrWaitTimeout
                      | Some deleteErr \<Rightarrow>
                          Some (delete_failed crdName deleteErr ErrWaitTimeout),
                      \<lparr>client = s,
                       trace = trace w2 @
                         LogEntry DebugLevel crdName None
                           ''Waiting for CRD (CustomResourceDefinition) to be available...''
                         # replicate (Suc n_wait)
                             (LogEntry ErrorLevel crdName (Some (ErrorString reason))
                                ''Name conflict for CRD'')
                         @ [DeleteCall (Name crd)]\<rparr>))"
proof (intro conjI allI impI)
  show "established_condition cs crdName crd (clusterCRD, None, w) =
           ((False, None),
            (clusterCRD, None,
             logf ErrorLevel crdName (Some (ErrorString reason)) ''Name conflict for CRD'' w))"
    using assms by (rule name_conflict_step)
  show "Poll n (established_condition cs crdName crd) (clusterCRD, None, w) =
           (Some ErrWaitTimeout,
            (clusterCRD, None,
             w\<lparr>trace := trace w @
                  replicate (Suc n)
                    (LogEntry ErrorLevel crdName (Some (ErrorString reason))
                       ''Name conflict for CRD'')\<rparr>))"
    using assms by (rule name_conflict_poll)
next
  fix w0 c0 w1 w2 d s
  assume a: "fetch_or_create cs crdName crd w0 = Inr (c0, w1)
               \<and> update_if_needed cs vc cur n_update crdName crd c0 w1 = Inr (clusterCRD, w2)
               \<and> Delete cs (Name crd) (client w2) = (d, s)"
  then have "createUpdateCRD cs vc cur n_update n_wait crdName crd w0 =
               wait_established cs n_wait crdName crd clusterCRD w2"
    by (simp add: createUpdateCRD_def)
  with a name_conflict_wait [OF assms, of cs crd w2 d s n_wait crdName]
  show "createUpdateCRD cs vc cur n_update n_wait crdName crd w0 =
                     (case d of
                        None \<Rightarrow> Some ErrWaitTimeout
                      | Some deleteErr \<Rightarrow>
                          Some (delete_failed crdName deleteErr ErrWaitTimeout),
                      \<lparr>client = s,
                       trace = trace w2 @
                         LogEntry DebugLevel crdName None
                           ''Waiting for CRD (CustomResourceDefinition) to be available...''
                         # replicate (Suc n_wait)
                             (LogEntry ErrorLevel crdName (Some (ErrorString reason))
                                ''Name conflict for CRD'')
                         @ [DeleteCall (Name crd)]\<rparr>)"
    by simp
qed

theorem name_conflict_keeps_polling_witness:
  "createUpdateCRD scripted dotted_version current_version 119 2 ''v2.CiliumNode'' node_res
     (start [Inr (live ''1.18'' [names_rejected]), Inr (live ''1.18'' [established_true])])
   = (Some ErrWaitTimeout,
      \<lparr>client = [],
       trace =
         [GetCall ''ciliumnodes.cilium.io'',
          LogEntry DebugLevel ''v2.CiliumNode'' None
            ''Checking if CRD (CustomResourceDefinition) needs update...'',
          LogEntry DebugLevel ''v2.CiliumNode'' None
            ''Waiting for CRD (CustomResourceDefinition) to be available...'',
          LogEntry ErrorLevel ''v2.CiliumNode'' (Some (ErrorString ''ShortNamesConflict''))
            ''Name conflict for CRD'',
          LogEntry ErrorLevel ''v2.CiliumNode'' (Some (ErrorString ''ShortNamesConflict''))
            ''Name conflict for CRD'',
          LogEntry ErrorLevel ''v2.CiliumNode'' (Some (ErrorString ''ShortNamesConflict''))
            ''Name conflict for CRD'',
          DeleteCall ''ciliumnodes.cilium.io'']\<rparr>)"
proof -
  let ?c = "live ''1.18'' [names_rejected]"
  let ?e = "live ''1.18'' [established_true]"
  let ?checking = "LogEntry DebugLevel ''v2.CiliumNode'' None
                     ''Checking if CRD (CustomResourceDefinition) needs update...''"
  let ?w1 = "\<lparr>client = [Inr ?e], trace = [GetCall ''ciliumnodes.cilium.io'']\<rparr>"
  let ?w2 = "\<lparr>client = [Inr ?e], trace = [GetCall ''ciliumnodes.cilium.io'', ?checking]\<rparr>"
  have s: "scan_conditions (Conditions ?c) = FoundNameConflict ''ShortNamesConflict''"
    by (simp add: live_simps condition_defs)
  have f: "fetch_or_create scripted ''v2.CiliumNode'' node_res (start [Inr ?c, Inr ?e])
             = Inr (?c, ?w1)"
    by (simp add: run_defs node_res_simps)
  have u: "update_if_needed scripted dotted_version current_version 119 ''v2.CiliumNode''
             node_res ?c ?w1 = Inr (?c, ?w2)"
    by (simp add: update_if_needed_def needsUpdate_live logf_def)
  have d: "Delete scripted (Name node_res) (client ?w2) = (None, [])"
    by (simp add: scripted_def err_of_def)
  note t = name_conflict_keeps_polling
    [OF s, THEN conjunct2, THEN conjunct2, rule_format, OF conjI [OF f conjI [OF u d]]]
  show ?thesis
    using t [where n_wait = 2] by (simp add: numeral_2_eq_2 node_res_simps)
qed

subsection \<open>The identity kind\<close>

text \<open>
  C9. The descriptor of the identity kind has no validation schema. So for every live
  object the update phase only logs, and a call of \<open>createIdentityCRD\<close> that returns has
  added no Update call to the trace.
\<close>

theorem identity_never_updated:
  "Validation (Spec (res_Identity ext ciliumCRD)) = None
   \<and> (\<forall>clusterCRD w1.
        update_if_needed cs vc cur n_update ''v2.CiliumIdentity'' (res_Identity ext ciliumCRD)
          clusterCRD w1
        = Inr (clusterCRD,
               logf DebugLevel ''v2.CiliumIdentity'' None
                 ''Checking if CRD (CustomResourceDefinition) needs update...'' w1))
   \<and> (\<forall>result w'.
        createIdentityCRD cs vc cur n_update n_wait ext w = Return (result, w')
        \<longrightarrow> updates w' = updates w)"
proof -
  have v: "Validation (Spec (res_Identity ext doc)) = None" for doc
    by (simp add: res_Identity_def descriptor_def)
  have "updates w' = updates w"
    if "createIdentityCRD cs vc cur n_update n_wait ext w = Return (result, w')"
    for result w'
  proof -
    from that obtain doc where
      "createUpdateCRD cs vc cur n_update n_wait ''v2.CiliumIdentity''
         (res_Identity ext doc) w = (result, w')"
      by (auto simp: createIdentityCRD_def split: outcome.splits)
    with createUpdateCRD_without_validation [OF v, of cs vc cur n_update n_wait
        "''v2.CiliumIdentity''" doc w]
    show ?thesis by simp
  qed
  with v show ?thesis by (simp add: update_skipped)
qed

theorem identity_never_updated_witness:
  "needsUpdate dotted_version current_version (live ''1.17'' [established_true])
   \<and> createIdentityCRD scripted dotted_version current_version 119 119 example_ext
       (start [Inr (live ''1.17'' [established_true]), Inr (live ''1.18'' [])])
     = Return
         (None,
          \<lparr>client = [Inr (live ''1.18'' [])],
           trace =
             [GetCall ''ciliumidentities.cilium.io'',
              LogEntry DebugLevel ''v2.CiliumIdentity'' None
                ''Checking if CRD (CustomResourceDefinition) needs update...'',
              LogEntry DebugLevel ''v2.CiliumIdentity'' None
                ''Waiting for CRD (CustomResourceDefinition) to be available...'',
              LogEntry InfoLevel ''v2.CiliumIdentity'' None
                ''CRD (CustomResourceDefinition) is installed and up-to-date'']\<rparr>)"
proof -
  let ?c = "live ''1.17'' [established_true]"
  let ?w = "start [Inr ?c, Inr (live ''1.18'' [])]"
  let ?res = "res_Identity example_ext (example_doc ''ciliumidentities'')"
  note t = identity_never_updated
    [of example_ext "example_doc ''ciliumidentities''" scripted dotted_version "current_version"
       119 119 ?w]
  from t have skip: "update_if_needed scripted dotted_version current_version 119
          ''v2.CiliumIdentity'' ?res clusterCRD w1
        = Inr (clusterCRD,
               logf DebugLevel ''v2.CiliumIdentity'' None
                 ''Checking if CRD (CustomResourceDefinition) needs update...'' w1)"
    for clusterCRD w1
    by blast
  have f: "fetch_or_create scripted ''v2.CiliumIdentity'' ?res ?w
             = Inr (?c, \<lparr>client = [Inr (live ''1.18'' [])],
                          trace = [GetCall ''ciliumidentities.cilium.io'']\<rparr>)"
    by (simp add: fetch_or_create_def do_Get_def scripted_def start_def err_of_def
          example_names)
  have p: "Poll 119 (established_condition scripted ''v2.CiliumIdentity'' ?res) (?c, None, w)
             = (None, (?c, None, w))" for w
    by (rule Poll_done) (simp add: established_condition_def live_simps condition_defs)
  have "createIdentityCRD scripted dotted_version current_version 119 119 example_ext ?w
     = Return
         (None,
          \<lparr>client = [Inr (live ''1.18'' [])],
           trace =
             [GetCall ''ciliumidentities.cilium.io'',
              LogEntry DebugLevel ''v2.CiliumIdentity'' None
                ''Checking if CRD (CustomResourceDefinition) needs update...'',
              LogEntry DebugLevel ''v2.CiliumIdentity'' None
                ''Waiting for CRD (CustomResourceDefinition) to be available...'',
              LogEntry InfoLevel ''v2.CiliumIdentity'' None
                ''CRD (CustomResourceDefinition) is installed and up-to-date'']\<rparr>)"
    by (simp add: createIdentityCRD_def example_ext_simps createUpdateCRD_def f skip
          wait_established_def p logf_def)
  then show ?thesis
    by (simp add: needsUpdate_live)
qed

subsection \<open>The first matching condition\<close>

text \<open>
  C10. A run of the establishment wait acts on the first matching entry of the condition
  list. If an Established entry with status true stands before every NamesAccepted entry
  with status false, the run reports done and leaves the state as it is. If a
  NamesAccepted entry with status false is the first matching entry, the run reports
  "not done", logs the reason of that entry whatever follows it (an Established entry
  with status true included), and issues no Get. If no entry matches, the run issues one
  Get, takes the fetched object (or the error) and reports "not done".
\<close>

theorem first_matching_condition_decides:
  "(\<forall>pre cond post.
      Conditions clusterCRD = pre @ cond # post
      \<and> (\<forall>x \<in> set pre. \<not> is_name_conflict x) \<and> is_established cond
      \<longrightarrow> established_condition cs crdName crd (clusterCRD, err, w)
            = ((True, err), (clusterCRD, err, w)))
   \<and> (\<forall>pre cond post.
      Conditions clusterCRD = pre @ cond # post
      \<and> (\<forall>x \<in> set pre. \<not> matching x) \<and> is_name_conflict cond
      \<longrightarrow> established_condition cs crdName crd (clusterCRD, err, w)
            = ((False, err),
               (clusterCRD, err,
                logf ErrorLevel crdName (Some (ErrorString (Reason cond)))
                  ''Name conflict for CRD'' w)))
   \<and> ((\<forall>x \<in> set (Conditions clusterCRD). \<not> matching x)
      \<longrightarrow> established_condition cs crdName crd (clusterCRD, err, w)
            = (case Get cs (Name crd) (client w) of
                 (Inl e, s) \<Rightarrow>
                   ((False, Some e),
                    (clusterCRD, Some e,
                     \<lparr>client = s, trace = trace w @ [GetCall (Name crd)]\<rparr>))
               | (Inr fetched, s) \<Rightarrow>
                   ((False, None),
                    (fetched, None,
                     \<lparr>client = s, trace = trace w @ [GetCall (Name crd)]\<rparr>))))"
proof (intro conjI allI impI)
  fix pre cond post
  assume a: "Conditions clusterCRD = pre @ cond # post
      \<and> (\<forall>x \<in> set pre. \<not> is_name_conflict x) \<and> is_established cond"
  then have "scan_conditions (Conditions clusterCRD) = FoundEstablished"
    by (simp add: scan_conditions_established)
  then show "established_condition cs crdName crd (clusterCRD, err, w)
            = ((True, err), (clusterCRD, err, w))"
    by (simp add: established_condition_def)
next
  fix pre cond post
  assume a: "Conditions clusterCRD = pre @ cond # post
      \<and> (\<forall>x \<in> set pre. \<not> matching x) \<and> is_name_conflict cond"
  then have "scan_conditions (Conditions clusterCRD) = FoundNameConflict (Reason cond)"
    by (simp add: scan_conditions_name_conflict)
  then show "established_condition cs crdName crd (clusterCRD, err, w)
            = ((False, err),
               (clusterCRD, err,
                logf ErrorLevel crdName (Some (ErrorString (Reason cond)))
                  ''Name conflict for CRD'' w))"
    by (rule name_conflict_step)
next
  assume "\<forall>x \<in> set (Conditions clusterCRD). \<not> matching x"
  then have "scan_conditions (Conditions clusterCRD) = NothingFound"
    by (rule scan_conditions_none)
  then show "established_condition cs crdName crd (clusterCRD, err, w)
            = (case Get cs (Name crd) (client w) of
                 (Inl e, s) \<Rightarrow>
                   ((False, Some e),
                    (clusterCRD, Some e,
                     \<lparr>client = s, trace = trace w @ [GetCall (Name crd)]\<rparr>))
               | (Inr fetched, s) \<Rightarrow>
                   ((False, None),
                    (fetched, None,
                     \<lparr>client = s, trace = trace w @ [GetCall (Name crd)]\<rparr>)))"
    by (simp add: established_condition_def do_Get_def split: prod.splits sum.splits)
qed

theorem first_matching_condition_decides_witness:
  "established_condition scripted ''v2.CiliumNode'' node_res
     (live ''1.18'' [names_accepted, established_true, names_rejected], None,
      start [Inr (live ''1.18'' [])])
   = ((True, None),
      (live ''1.18'' [names_accepted, established_true, names_rejected], None,
       start [Inr (live ''1.18'' [])]))
   \<and> established_condition scripted ''v2.CiliumNode'' node_res
     (live ''1.18'' [names_accepted, names_rejected, established_true], None,
      start [Inr (live ''1.18'' [])])
   = ((False, None),
      (live ''1.18'' [names_accepted, names_rejected, established_true], None,
       \<lparr>client = [Inr (live ''1.18'' [])],
        trace = [LogEntry ErrorLevel ''v2.CiliumNode'' (Some (ErrorString ''ShortNamesConflict''))
                   ''Name conflict for CRD'']\<rparr>))
   \<and> established_condition scripted ''v2.CiliumNode'' node_res
     (live ''1.18'' [names_accepted], None, start [Inr (live ''1.18'' [established_true])])
   = ((False, None),
      (live ''1.18'' [established_true], None,
       \<lparr>client = [], trace = [GetCall ''ciliumnodes.cilium.io'']\<rparr>))"
proof -
  have a: "established_condition scripted ''v2.CiliumNode'' node_res
     (live ''1.18'' [names_accepted, established_true, names_rejected], None,
      start [Inr (live ''1.18'' [])])
   = ((True, None),
      (live ''1.18'' [names_accepted, established_true, names_rejected], None,
       start [Inr (live ''1.18'' [])]))"
    using first_matching_condition_decides
      [of "live ''1.18'' [names_accepted, established_true, names_rejected]"
         scripted "''v2.CiliumNode''" node_res None "start [Inr (live ''1.18'' [])]",
       THEN conjunct1, rule_format,
       of "[names_accepted]" established_true "[names_rejected]"]
    by (simp add: live_simps matching_examples)
  have b: "established_condition scripted ''v2.CiliumNode'' node_res
     (live ''1.18'' [names_accepted, names_rejected, established_true], None,
      start [Inr (live ''1.18'' [])])
   = ((False, None),
      (live ''1.18'' [names_accepted, names_rejected, established_true], None,
       \<lparr>client = [Inr (live ''1.18'' [])],
        trace = [LogEntry ErrorLevel ''v2.CiliumNode'' (Some (ErrorString ''ShortNamesConflict''))
                   ''Name conflict for CRD'']\<rparr>))"
    using first_matching_condition_decides
      [of "live ''1.18'' [names_accepted, names_rejected, established_true]"
         scripted "''v2.CiliumNode''" node_res None "start [Inr (live ''1.18'' [])]",
       THEN conjunct2, THEN conjunct1, rule_format,
       of "[names_accepted]" names_rejected "[established_true]"]
    by (simp add: live_simps matching_examples logf_def start_def)
  have c: "established_condition scripted ''v2.CiliumNode'' node_res
     (live ''1.18'' [names_accepted], None, start [Inr (live ''1.18'' [established_true])])
   = ((False, None),
      (live ''1.18'' [established_true], None,
       \<lparr>client = [], trace = [GetCall ''ciliumnodes.cilium.io'']\<rparr>))"
    using first_matching_condition_decides
      [of "live ''1.18'' [names_accepted]"
         scripted "''v2.CiliumNode''" node_res None
         "start [Inr (live ''1.18'' [established_true])]",
       THEN conjunct2, THEN conjunct2]
    by (simp add: live_simps matching_examples scripted_def start_def node_res_simps)
  from a b c show ?thesis by simp
qed

end
